theory Spec2Isabelle
  imports Complex_Main "HOL-Library.Word" "HOL-Library.Multiset"
begin

section \<open>Common helpers: JavaScript template literals\<close>

text \<open>
  The sources build strings with template literals such as \<open>`SZ[${boardSize}]`\<close> and
  \<open>`__sp_${softplusCount}`\<close>. The numbers interpolated there are integer-valued in every
  use modelled below; \<open>show_nat\<close> and \<open>show_int\<close> are their decimal renderings, which is
  what a template literal prints for an integer of magnitude below \<open>10^21\<close> (from there on
  it prints an exponent).
\<close>

definition digit_char :: "nat \<Rightarrow> char" where
  "digit_char d = ''0123456789'' ! d"

fun show_nat :: "nat \<Rightarrow> string" where
  "show_nat n = (if n < 10 then [digit_char n] else show_nat (n div 10) @ [digit_char (n mod 10)])"

declare show_nat.simps [simp del]

definition show_int :: "int \<Rightarrow> string" where
  "show_int i = (if i < 0 then CHR ''-'' # show_nat (nat (- i)) else show_nat (nat i))"

section \<open>Common helpers: JavaScript numbers\<close>

text \<open>
  A JavaScript number is a finite value, one of the two infinities, or \<open>NaN\<close>. Finite values
  are taken as reals here. \<open>a < b\<close> is false as soon as one side is \<open>NaN\<close>.
\<close>

datatype jsnum = Fin real | PosInf | NegInf | NaN

definition js_lt :: "jsnum \<Rightarrow> jsnum \<Rightarrow> bool" where
  "js_lt a b =
     (case (a, b) of
        (Fin x, Fin y) \<Rightarrow> x < y
      | (Fin x, PosInf) \<Rightarrow> True
      | (NegInf, Fin y) \<Rightarrow> True
      | (NegInf, PosInf) \<Rightarrow> True
      | _ \<Rightarrow> False)"

text \<open>
  \<open>n++\<close> on a whole number held as a number: exact below \<open>2^53\<close>; \<open>2^53 + 1\<close> is not a
  floating-point number and rounds back to \<open>2^53\<close>.
\<close>

definition js_succ :: "nat \<Rightarrow> nat" where
  "js_succ n = (if n < 2 ^ 53 then Suc n else n)"

section \<open>Position-file emitter (\<open>sgf.ts\<close>: \<open>coord\<close>, \<open>buildSGF\<close>)\<close>









section \<open>Model rewriter (\<open>webgpu-converter.ts\<close>, \<open>webnn-converter.ts\<close>)\<close>

subsection \<open>The decoded tensor-graph messages\<close>

text \<open>
  The rewriter works on the objects that \<open>ModelProto.decode\<close> returns. Of their fields,
  those the rewriter reads or writes are kept, and those that hold nodes: a node list is
  found in the graph of the model, in the graphs held by the attributes \<open>g\<close> and \<open>graphs\<close> of
  a node (the branches and bodies of control-flow operators), in the local functions of the
  model and in the graphs of its training information. A scalar field that is absent on the
  wire reads as its default (\<open>0\<close>, the empty string), a message field as \<open>null\<close> (here
  \<open>None\<close>), a repeated field as the empty array.

  \<open>dimValue\<close> is a number after decoding. The coprocessor profile assigns it the result of a
  property lookup on an object literal, which for an inherited property name is a function
  or an object; \<open>JOther\<close> stands for such a value.
\<close>

datatype jsval = JNum int | JOther

record Dimension =
  dimValue :: jsval
  dimParam :: string

record Tensor =
  elemType :: int
  shape :: "Dimension list option"

record TypeProto =
  tensorType :: "Tensor option"

record ValueInfoProto =
  vi_name :: string
  vi_type :: "TypeProto option"

text \<open>
  A graph held by an attribute is a \<open>GraphProto\<close> again, with nodes whose attributes may hold
  graphs, to any depth. The levels below the graph of the model are the datatype \<open>SubGraph\<close>,
  with the fields \<open>node\<close> of a graph, \<open>input\<close>, \<open>output\<close>, \<open>name\<close>, \<open>opType\<close>, \<open>attribute\<close> of a
  node and \<open>name\<close>, \<open>g\<close>, \<open>graphs\<close> of an attribute.
\<close>

datatype SubGraph = SubGraph (sub_node: "SubNode list")
  and SubNode =
    SubNode (sub_input: "string list") (sub_output: "string list") (sub_name: string)
            (sub_opType: string) (sub_attribute: "SubAttr list")
  and SubAttr =
    SubAttr (sub_attr_name: string) (sub_attr_g: "SubGraph option") (sub_attr_graphs: "SubGraph list")

record AttributeProto =
  attr_name :: string
  attr_type :: int
  attr_i :: int
  attr_g :: "SubGraph option"
  attr_graphs :: "SubGraph list"

text \<open>
  \<open>input\<close> and \<open>output\<close> hold tensor names. The nodes the rewriter builds take
  \<open>node.input[0]\<close> and \<open>node.output[0]\<close> of the node they replace, which is
  \<open>undefined\<close> (here \<open>None\<close>) when that list is empty.
\<close>

record NodeProto =
  node_input :: "string option list"
  node_output :: "string option list"
  node_name :: string
  opType :: string
  attribute :: "AttributeProto list"

record TensorProto =
  dims :: "int list"
  dataType :: int
  rawData :: "8 word list"
  tensor_name :: string

record GraphProto =
  node :: "NodeProto list"
  initializer :: "TensorProto list"
  graph_input :: "ValueInfoProto list"
  graph_output :: "ValueInfoProto list"
  valueInfo :: "ValueInfoProto list"

record FunctionProto =
  fn_name :: string
  fn_node :: "NodeProto list"

record TrainingInfoProto =
  initialization :: "SubGraph option"
  algorithm :: "SubGraph option"

record ModelProto =
  graph :: "GraphProto option"
  trainingInfo :: "TrainingInfoProto list"
  model_functions :: "FunctionProto list"

subsection \<open>The operator types that occur in a model\<close>

text \<open>
  The operator types of all nodes of a graph, of a node and of an attribute, at every depth,
  in document order.
\<close>

primrec sub_opTypes :: "SubGraph \<Rightarrow> string list"
  and subnode_opTypes :: "SubNode \<Rightarrow> string list"
  and subattr_opTypes :: "SubAttr \<Rightarrow> string list" where
  "sub_opTypes (SubGraph ns) = concat (map subnode_opTypes ns)"
| "subnode_opTypes (SubNode ins outs nm op attrs) = op # concat (map subattr_opTypes attrs)"
| "subattr_opTypes (SubAttr nm g gs) =
     (case map_option sub_opTypes g of None \<Rightarrow> [] | Some ops \<Rightarrow> ops) @ concat (map sub_opTypes gs)"

definition attr_opTypes :: "AttributeProto \<Rightarrow> string list" where
  "attr_opTypes a =
     (case attr_g a of None \<Rightarrow> [] | Some h \<Rightarrow> sub_opTypes h) @ concat (map sub_opTypes (attr_graphs a))"

definition node_opTypes :: "NodeProto \<Rightarrow> string list" where
  "node_opTypes nd = opType nd # concat (map attr_opTypes (attribute nd))"

definition graph_opTypes :: "GraphProto \<Rightarrow> string list" where
  "graph_opTypes g = concat (map node_opTypes (node g))"

definition model_opTypes :: "ModelProto \<Rightarrow> string list" where
  "model_opTypes m =
     (case graph m of None \<Rightarrow> [] | Some g \<Rightarrow> graph_opTypes g)
     @ concat (map (\<lambda>t. (case initialization t of None \<Rightarrow> [] | Some h \<Rightarrow> sub_opTypes h)
                         @ (case algorithm t of None \<Rightarrow> [] | Some h \<Rightarrow> sub_opTypes h))
                   (trainingInfo m))
     @ concat (map (\<lambda>f. concat (map node_opTypes (fn_node f))) (model_functions m))"

definition ONNX_FLOAT :: int where "ONNX_FLOAT = 1"
definition ONNX_FLOAT16 :: int where "ONNX_FLOAT16 = 10"

text \<open>
  One entry of the \<open>changes\<close> array. The source pushes a rendered message; the model keeps
  the parts of the message. \<open>wasConverted\<close> only asks whether the array is empty.
\<close>

datatype change =
    BatchChange string string Dimension int
  | DimChange string string string jsval
  | UnknownToOne string string
  | ReplacedSoftplus nat
  | ReplacedLogSoftmax nat

record ConversionResult =
  buffer :: "8 word list"
  wasConverted :: bool
  changes :: "change list"
  batchSize :: int

datatype convert_error = DecodeError | NoGraph | EncodeError

subsection \<open>Element type of the first input\<close>

text \<open>\<open>graph.input[0]?.type?.tensorType?.elemType === ONNX_FLOAT16\<close>\<close>

definition isFp16 :: "GraphProto \<Rightarrow> bool" where
  "isFp16 g =
     (case graph_input g of
        [] \<Rightarrow> False
      | vi # _ \<Rightarrow>
          (case vi_type vi of
             None \<Rightarrow> False
           | Some ty \<Rightarrow>
               (case tensorType ty of
                  None \<Rightarrow> False
                | Some tt \<Rightarrow> elemType tt = ONNX_FLOAT16)))"

subsection \<open>Reading and writing the dimensions of a declaration\<close>

text \<open>\<open>vi.type?.tensorType?.shape?.dim\<close>\<close>

definition vi_dims :: "ValueInfoProto \<Rightarrow> Dimension list option" where
  "vi_dims vi =
     (case vi_type vi of
        None \<Rightarrow> None
      | Some ty \<Rightarrow> (case tensorType ty of None \<Rightarrow> None | Some tt \<Rightarrow> shape tt))"

text \<open>The declaration after its dimension objects were mutated in place.\<close>

definition vi_with_dims :: "ValueInfoProto \<Rightarrow> Dimension list \<Rightarrow> ValueInfoProto" where
  "vi_with_dims vi ds =
     (case vi_type vi of
        None \<Rightarrow> vi
      | Some ty \<Rightarrow>
          (case tensorType ty of
             None \<Rightarrow> vi
           | Some tt \<Rightarrow> vi\<lparr>vi_type := Some (ty\<lparr>tensorType := Some (tt\<lparr>shape := Some ds\<rparr>)\<rparr>)\<rparr>))"

text \<open>\<open>!dim.dimValue || Number(dim.dimValue) <= 0\<close>\<close>

definition not_positive :: "jsval \<Rightarrow> bool" where
  "not_positive v = (case v of JNum n \<Rightarrow> n = 0 \<or> n \<le> 0 | JOther \<Rightarrow> False)"

subsection \<open>Static-dimension pass, graph-capture profile (\<open>convertModelForWebGPU\<close>)\<close>

text \<open>
  The body of \<open>for (const vi of valueInfos)\<close>, folded over the list: the declarations
  afterwards and the messages pushed, in order. The message keeps the dimension as it was.
\<close>

fun makeStaticGPU ::
  "int \<Rightarrow> string \<Rightarrow> ValueInfoProto list \<Rightarrow> ValueInfoProto list \<times> change list" where
  "makeStaticGPU bs label [] = ([], [])"
| "makeStaticGPU bs label (vi # vis) =
     (let (vis', cs) = makeStaticGPU bs label vis in
      case vi_dims vi of
        None \<Rightarrow> (vi # vis', cs)
      | Some [] \<Rightarrow> (vi # vis', cs)
      | Some (firstDim # rest) \<Rightarrow>
          if dimParam firstDim \<noteq> [] \<or> not_positive (dimValue firstDim)
          then (vi_with_dims vi (firstDim\<lparr>dimValue := JNum bs, dimParam := []\<rparr> # rest) # vis',
                BatchChange label (vi_name vi) firstDim bs # cs)
          else (vi # vis', cs))"

subsection \<open>Static-dimension pass, coprocessor profile (\<open>convertModelForWebNN\<close>)\<close>

text \<open>
  \<open>STATIC_DIMS\<close> is the object literal \<open>{ batch_size, height, width }\<close>. A lookup
  \<open>STATIC_DIMS[name]\<close> with another name goes to the properties every object inherits,
  and is \<open>undefined\<close> (here \<open>None\<close>) for every name that is not one of those.
\<close>

definition inherited_names :: "string list" where
  "inherited_names =
     [''constructor'', ''__defineGetter__'', ''__defineSetter__'', ''hasOwnProperty'',
      ''__lookupGetter__'', ''__lookupSetter__'', ''isPrototypeOf'', ''propertyIsEnumerable'',
      ''toString'', ''valueOf'', ''__proto__'', ''toLocaleString'']"

definition STATIC_DIMS :: "int \<Rightarrow> int \<Rightarrow> string \<Rightarrow> jsval option" where
  "STATIC_DIMS bs boardSize name =
     (if name = ''batch_size'' then Some (JNum bs)
      else if name = ''height'' then Some (JNum boardSize)
      else if name = ''width'' then Some (JNum boardSize)
      else if name \<in> set inherited_names then Some JOther
      else None)"

text \<open>The body of \<open>for (const dim of dims)\<close>: the dimension afterwards, and what was pushed.\<close>

definition staticDimNN ::
  "int \<Rightarrow> int \<Rightarrow> string \<Rightarrow> string \<Rightarrow> Dimension \<Rightarrow> Dimension \<times> change list" where
  "staticDimNN bs boardSize label viName d =
     (let name = dimParam d in
      case (if name \<noteq> [] then STATIC_DIMS bs boardSize name else None) of
        Some v \<Rightarrow> (d\<lparr>dimValue := v, dimParam := []\<rparr>, [DimChange label viName name v])
      | None \<Rightarrow>
          if dimParam d = [] \<and> not_positive (dimValue d)
          then (d\<lparr>dimValue := JNum 1, dimParam := []\<rparr>, [UnknownToOne label viName])
          else (d, []))"

fun staticDimsNN ::
  "int \<Rightarrow> int \<Rightarrow> string \<Rightarrow> string \<Rightarrow> Dimension list \<Rightarrow> Dimension list \<times> change list" where
  "staticDimsNN bs boardSize label viName [] = ([], [])"
| "staticDimsNN bs boardSize label viName (d # ds) =
     (let (d', c) = staticDimNN bs boardSize label viName d;
          (ds', cs) = staticDimsNN bs boardSize label viName ds
      in (d' # ds', c @ cs))"

fun makeStaticNN ::
  "int \<Rightarrow> int \<Rightarrow> string \<Rightarrow> ValueInfoProto list \<Rightarrow> ValueInfoProto list \<times> change list" where
  "makeStaticNN bs boardSize label [] = ([], [])"
| "makeStaticNN bs boardSize label (vi # vis) =
     (let (vis', cs) = makeStaticNN bs boardSize label vis in
      case vi_dims vi of
        None \<Rightarrow> (vi # vis', cs)
      | Some [] \<Rightarrow> (vi # vis', cs)
      | Some ds \<Rightarrow>
          (let (ds', c) = staticDimsNN bs boardSize label (vi_name vi) ds
           in (vi_with_dims vi ds' # vis', c @ cs)))"

text \<open>
  The three calls \<open>makeStatic(graph.input)\<close>, \<open>makeStatic(graph.output)\<close>,
  \<open>makeStatic(graph.valueInfo)\<close>, in this order.
\<close>

definition staticPassNN :: "int \<Rightarrow> int \<Rightarrow> GraphProto \<Rightarrow> GraphProto \<times> change list" where
  "staticPassNN bs boardSize g =
     (let (ins, c1) = makeStaticNN bs boardSize ''input'' (graph_input g);
          (outs, c2) = makeStaticNN bs boardSize ''output'' (graph_output g);
          (vis, c3) = makeStaticNN bs boardSize ''value_info'' (valueInfo g)
      in (g\<lparr>graph_input := ins, graph_output := outs, valueInfo := vis\<rparr>, c1 @ c2 @ c3))"

definition staticPassGPU :: "int \<Rightarrow> GraphProto \<Rightarrow> GraphProto \<times> change list" where
  "staticPassGPU bs g =
     (let (ins, c1) = makeStaticGPU bs ''input'' (graph_input g);
          (outs, c2) = makeStaticGPU bs ''output'' (graph_output g);
          (vis, c3) = makeStaticGPU bs ''value_info'' (valueInfo g)
      in (g\<lparr>graph_input := ins, graph_output := outs, valueInfo := vis\<rparr>, c1 @ c2 @ c3))"

subsection \<open>The constant one\<close>

text \<open>
  \<open>new DataView(oneBytes.buffer).setFloat32(0, 1.0, true)\<close> stores the four bytes of the
  IEEE-754 single-precision pattern of \<open>1.0\<close>, least significant byte first. The pattern
  is sign 0, biased exponent 127, fraction 0.
\<close>

definition float32_bits :: "bool \<Rightarrow> nat \<Rightarrow> nat \<Rightarrow> 32 word" where
  "float32_bits sg e fr =
     word_of_nat ((if sg then 2 ^ 31 else 0) + e * 2 ^ 23 + fr)"

definition le_bytes32 :: "32 word \<Rightarrow> 8 word list" where
  "le_bytes32 w = [ucast w, ucast (drop_bit 8 w), ucast (drop_bit 16 w), ucast (drop_bit 24 w)]"

text \<open>
  The real number a bit pattern stands for, for the normal and subnormal patterns of a
  format with \<open>ebits\<close> exponent bits and \<open>fbits\<close> fraction bits (\<open>None\<close> for infinities
  and NaN). Single precision is \<open>8, 23\<close>; half precision is \<open>5, 10\<close>.
\<close>

definition ieee_value :: "nat \<Rightarrow> nat \<Rightarrow> nat \<Rightarrow> real option" where
  "ieee_value ebits fbits n =
     (let fr = n mod 2 ^ fbits;
          e = (n div 2 ^ fbits) mod 2 ^ ebits;
          sg = (if (n div 2 ^ (fbits + ebits)) mod 2 = 1 then - 1 else 1 :: real);
          bias = 2 ^ (ebits - 1) - 1 :: nat
      in if e = 2 ^ ebits - 1 then None
         else if e = 0 then Some (sg * (real fr / 2 ^ fbits) * 2 powr (1 - real bias))
         else Some (sg * (1 + real fr / 2 ^ fbits) * 2 powr (real e - real bias)))"

text \<open>The unsigned number that a little-endian byte sequence spells.\<close>

fun le_nat :: "8 word list \<Rightarrow> nat" where
  "le_nat [] = 0"
| "le_nat (b # bs) = unat b + 256 * le_nat bs"

definition oneBytes :: "bool \<Rightarrow> 8 word list" where
  "oneBytes fp16 = (if fp16 then [0x00, 0x3c] else le_bytes32 (float32_bits False 127 0))"

subsection \<open>Operator-decomposition pass\<close>

text \<open>
  The two converters run the same loop and differ in the names they generate:
  \<open>__webgpu_const_one\<close>, \<open>__sp_\<close>, \<open>__ls_\<close> in \<open>webgpu-converter.ts\<close> and
  \<open>__webnn_const_one\<close>, \<open>__wnsp_\<close>, \<open>__wnls_\<close> in \<open>webnn-converter.ts\<close>.
\<close>

record profile =
  oneName :: string
  spPrefix :: string
  lsPrefix :: string

definition webgpu_profile :: profile where
  "webgpu_profile = \<lparr>oneName = ''__webgpu_const_one'', spPrefix = ''__sp_'', lsPrefix = ''__ls_''\<rparr>"

definition webnn_profile :: profile where
  "webnn_profile = \<lparr>oneName = ''__webnn_const_one'', spPrefix = ''__wnsp_'', lsPrefix = ''__wnls_''\<rparr>"

text \<open>An object literal \<open>{ input, output, opType, attribute }\<close>: no name.\<close>

definition mkNode ::
  "string option list \<Rightarrow> string option list \<Rightarrow> string \<Rightarrow> AttributeProto list \<Rightarrow> NodeProto" where
  "mkNode ins outs op attrs =
     \<lparr>node_input = ins, node_output = outs, node_name = [], opType = op, attribute = attrs\<rparr>"

text \<open>\<open>node.input[0]\<close>, \<open>node.output[0]\<close>\<close>

definition first :: "string option list \<Rightarrow> string option" where
  "first xs = (case xs of [] \<Rightarrow> None | x # _ \<Rightarrow> x)"

definition softplusNodes :: "string \<Rightarrow> string \<Rightarrow> string option \<Rightarrow> string option \<Rightarrow> NodeProto list" where
  "softplusNodes one p x y =
     [mkNode [x] [Some (p @ ''_abs'')] ''Abs'' [],
      mkNode [Some (p @ ''_abs'')] [Some (p @ ''_neg'')] ''Neg'' [],
      mkNode [Some (p @ ''_neg'')] [Some (p @ ''_exp'')] ''Exp'' [],
      mkNode [Some (p @ ''_exp''), Some one] [Some (p @ ''_add1'')] ''Add'' [],
      mkNode [Some (p @ ''_add1'')] [Some (p @ ''_log'')] ''Log'' [],
      mkNode [x] [Some (p @ ''_relu'')] ''Relu'' [],
      mkNode [Some (p @ ''_relu''), Some (p @ ''_log'')] [y] ''Add'' []]"

definition softplusTemps :: "string \<Rightarrow> string list" where
  "softplusTemps p =
     [p @ ''_abs'', p @ ''_neg'', p @ ''_exp'', p @ ''_add1'', p @ ''_log'', p @ ''_relu'']"

definition logsoftmaxNodes :: "string \<Rightarrow> AttributeProto list \<Rightarrow> string option \<Rightarrow> string option \<Rightarrow> NodeProto list" where
  "logsoftmaxNodes p attrs x y =
     [mkNode [x] [Some (p @ ''_sm'')] ''Softmax'' attrs,
      mkNode [Some (p @ ''_sm'')] [y] ''Log'' []]"

text \<open>
  \<open>[...(graph.valueInfo || []), ...(graph.input || [])].find(vi => vi.name === x)\<close>,
  then \<open>srcVi?.type\<close>; the copy made by \<open>JSON.parse(JSON.stringify(...))\<close> is the same
  value.
\<close>

definition srcType :: "ValueInfoProto list \<Rightarrow> string option \<Rightarrow> TypeProto option" where
  "srcType decls x =
     (case find (\<lambda>vi. Some (vi_name vi) = x) decls of
        None \<Rightarrow> None
      | Some vi \<Rightarrow> vi_type vi)"

definition tempInfos :: "ValueInfoProto list \<Rightarrow> string option \<Rightarrow> string list \<Rightarrow> ValueInfoProto list" where
  "tempInfos decls x names =
     (case srcType decls x of
        None \<Rightarrow> []
      | Some ty \<Rightarrow> map (\<lambda>n. \<lparr>vi_name = n, vi_type = Some ty\<rparr>) names)"

record loop_state =
  newNodes :: "NodeProto list"
  newValueInfos :: "ValueInfoProto list"
  softplusCount :: nat
  logsoftmaxCount :: nat
  needsOneConst :: bool

definition loop_init :: loop_state where
  "loop_init = \<lparr>newNodes = [], newValueInfos = [], softplusCount = 0, logsoftmaxCount = 0,
                 needsOneConst = False\<rparr>"

text \<open>The body of \<open>for (const node of graph.node)\<close>.\<close>

definition decomposeNode :: "profile \<Rightarrow> ValueInfoProto list \<Rightarrow> NodeProto \<Rightarrow> loop_state \<Rightarrow> loop_state" where
  "decomposeNode prof decls nd st =
     (if opType nd = ''Softplus'' then
        (let x = first (node_input nd); y = first (node_output nd);
             p = spPrefix prof @ show_nat (softplusCount st)
         in st\<lparr>newNodes := newNodes st @ softplusNodes (oneName prof) p x y,
               newValueInfos := newValueInfos st @ tempInfos decls x (softplusTemps p),
               softplusCount := softplusCount st + 1,
               needsOneConst := True\<rparr>)
      else if opType nd = ''LogSoftmax'' then
        (let x = first (node_input nd); y = first (node_output nd);
             p = lsPrefix prof @ show_nat (logsoftmaxCount st);
             attrs = filter (\<lambda>a. attr_name a = ''axis'') (attribute nd)
         in st\<lparr>newNodes := newNodes st @ logsoftmaxNodes p attrs x y,
               newValueInfos := newValueInfos st @ tempInfos decls x [p @ ''_sm''],
               logsoftmaxCount := logsoftmaxCount st + 1\<rparr>)
      else st\<lparr>newNodes := newNodes st @ [nd]\<rparr>)"

fun decomposeLoop :: "profile \<Rightarrow> ValueInfoProto list \<Rightarrow> NodeProto list \<Rightarrow> loop_state \<Rightarrow> loop_state" where
  "decomposeLoop prof decls [] st = st"
| "decomposeLoop prof decls (nd # nds) st = decomposeLoop prof decls nds (decomposeNode prof decls nd st)"

definition oneTensor :: "profile \<Rightarrow> bool \<Rightarrow> TensorProto" where
  "oneTensor prof fp16 =
     \<lparr>dims = [], dataType = (if fp16 then ONNX_FLOAT16 else ONNX_FLOAT),
      rawData = oneBytes fp16, tensor_name = oneName prof\<rparr>"

text \<open>
  Step 2 of both converters, on the graph as the static-dimension pass left it; \<open>fp16\<close> was
  read from the graph before that pass.
\<close>

definition decomposePass :: "profile \<Rightarrow> bool \<Rightarrow> GraphProto \<Rightarrow> GraphProto \<times> change list" where
  "decomposePass prof fp16 g =
     (let st = decomposeLoop prof (valueInfo g @ graph_input g) (node g) loop_init;
          cs = (if softplusCount st > 0 then [ReplacedSoftplus (softplusCount st)] else [])
               @ (if logsoftmaxCount st > 0 then [ReplacedLogSoftmax (logsoftmaxCount st)] else []);
          inits = (if needsOneConst st then initializer g @ [oneTensor prof fp16] else initializer g);
          vis = (if length (newValueInfos st) > 0 then valueInfo g @ newValueInfos st else valueInfo g)
      in (g\<lparr>node := newNodes st, initializer := inits, valueInfo := vis\<rparr>, cs))"

subsection \<open>The converters\<close>

text \<open>
  \<open>ModelProto.decode\<close> and \<open>ModelProto.encode\<close> belong to the protocol-buffer library
  and are parameters: \<open>dec\<close> gives \<open>None\<close> where decoding throws, \<open>enc\<close> where encoding
  throws. An \<open>async\<close> function that throws rejects its promise; that is the \<open>Inl\<close>
  result.
\<close>

definition rewriteWebGPU :: "int \<Rightarrow> GraphProto \<Rightarrow> GraphProto \<times> change list" where
  "rewriteWebGPU bs g =
     (let fp16 = isFp16 g;
          (g1, c1) = staticPassGPU bs g;
          (g2, c2) = decomposePass webgpu_profile fp16 g1
      in (g2, c1 @ c2))"

definition rewriteWebNN :: "int \<Rightarrow> int \<Rightarrow> GraphProto \<Rightarrow> GraphProto \<times> change list" where
  "rewriteWebNN bs boardSize g =
     (let fp16 = isFp16 g;
          (g1, c1) = staticPassNN bs boardSize g;
          (g2, c2) = decomposePass webnn_profile fp16 g1
      in (g2, c1 @ c2))"

definition WEBGPU_BATCH_SIZE :: int where "WEBGPU_BATCH_SIZE = 8"

definition convertModelForWebGPU ::
  "(8 word list \<Rightarrow> ModelProto option) \<Rightarrow> (ModelProto \<Rightarrow> 8 word list option) \<Rightarrow>
   8 word list \<Rightarrow> int option \<Rightarrow> convert_error + ConversionResult" where
  "convertModelForWebGPU dec enc modelBuffer optBatchSize =
     (let bs = (case optBatchSize of None \<Rightarrow> WEBGPU_BATCH_SIZE | Some b \<Rightarrow> b) in
      case dec modelBuffer of
        None \<Rightarrow> Inl DecodeError
      | Some model \<Rightarrow>
          (case graph model of
             None \<Rightarrow> Inl NoGraph
           | Some g \<Rightarrow>
               (let (g', cs) = rewriteWebGPU bs g in
                case enc (model\<lparr>graph := Some g'\<rparr>) of
                  None \<Rightarrow> Inl EncodeError
                | Some encoded \<Rightarrow>
                    Inr \<lparr>buffer = encoded, wasConverted = (length cs > 0), changes = cs,
                         batchSize = bs\<rparr>)))"

definition convertModelForWebNN ::
  "(8 word list \<Rightarrow> ModelProto option) \<Rightarrow> (ModelProto \<Rightarrow> 8 word list option) \<Rightarrow>
   8 word list \<Rightarrow> int option \<Rightarrow> int option \<Rightarrow> convert_error + ConversionResult" where
  "convertModelForWebNN dec enc modelBuffer optBatchSize optBoardSize =
     (let bs = (case optBatchSize of None \<Rightarrow> 1 | Some b \<Rightarrow> b);
          boardSize = (case optBoardSize of None \<Rightarrow> 19 | Some b \<Rightarrow> b) in
      case dec modelBuffer of
        None \<Rightarrow> Inl DecodeError
      | Some model \<Rightarrow>
          (case graph model of
             None \<Rightarrow> Inl NoGraph
           | Some g \<Rightarrow>
               (let (g', cs) = rewriteWebNN bs boardSize g in
                case enc (model\<lparr>graph := Some g'\<rparr>) of
                  None \<Rightarrow> Inl EncodeError
                | Some encoded \<Rightarrow>
                    Inr \<lparr>buffer = encoded, wasConverted = (length cs > 0), changes = cs,
                         batchSize = bs\<rparr>)))"

text \<open>
  The caller in \<open>AIEngineContext.tsx\<close>: the conversion runs inside \<open>try\<close>, the converted
  bytes replace the buffer only when \<open>wasConverted\<close> is set, and the \<open>catch\<close> keeps the
  original buffer. The result is the buffer handed to the engine and the auto-converted flag.
\<close>

definition autoConvertWebGPU ::
  "(8 word list \<Rightarrow> ModelProto option) \<Rightarrow> (ModelProto \<Rightarrow> 8 word list option) \<Rightarrow>
   8 word list \<Rightarrow> int \<Rightarrow> 8 word list \<times> bool" where
  "autoConvertWebGPU dec enc buf bs =
     (case convertModelForWebGPU dec enc buf (Some bs) of
        Inl _ \<Rightarrow> (buf, False)
      | Inr r \<Rightarrow> if wasConverted r then (buffer r, True) else (buf, False))"

definition autoConvertWebNN ::
  "(8 word list \<Rightarrow> ModelProto option) \<Rightarrow> (ModelProto \<Rightarrow> 8 word list option) \<Rightarrow>
   8 word list \<Rightarrow> int \<Rightarrow> 8 word list \<times> bool" where
  "autoConvertWebNN dec enc buf boardSize =
     (case convertModelForWebNN dec enc buf (Some 1) (Some boardSize) of
        Inl _ \<Rightarrow> (buf, False)
      | Inr r \<Rightarrow> if wasConverted r then (buffer r, True) else (buf, False))"

subsection \<open>What the operator decomposition is said to produce\<close>

text \<open>
  The replacement of the node at position \<open>i\<close>, written from the description of the pass:
  a softplus node with input \<open>x\<close> and output \<open>y\<close> becomes the seven nodes Abs, Neg, Exp,
  Add (with the constant one), Log, Relu, Add that compute
  \<open>relu(x) + log(1 + exp(-abs(x)))\<close> into \<open>y\<close>; a log-softmax node becomes Softmax, with
  the axis attribute of the original, followed by Log; any other node stays. Temporaries
  are numbered by how many nodes of the same kind precede position \<open>i\<close>.
\<close>

definition precedingOps :: "string \<Rightarrow> NodeProto list \<Rightarrow> nat \<Rightarrow> nat" where
  "precedingOps op nodes i = length (filter (\<lambda>n. opType n = op) (take i nodes))"

definition replacement :: "profile \<Rightarrow> NodeProto list \<Rightarrow> nat \<Rightarrow> NodeProto list" where
  "replacement prof nodes i =
     (let nd = nodes ! i;
          x = first (node_input nd);
          y = first (node_output nd);
          sp = (\<lambda>suffix. Some (spPrefix prof @ show_nat (precedingOps ''Softplus'' nodes i) @ suffix));
          ls = (\<lambda>suffix. Some (lsPrefix prof @ show_nat (precedingOps ''LogSoftmax'' nodes i) @ suffix));
          plain = (\<lambda>op ins out. \<lparr>node_input = ins, node_output = [out], node_name = [],
                                   opType = op, attribute = []\<rparr>)
      in if opType nd = ''Softplus'' then
           [plain ''Abs'' [x] (sp ''_abs''),
            plain ''Neg'' [sp ''_abs''] (sp ''_neg''),
            plain ''Exp'' [sp ''_neg''] (sp ''_exp''),
            plain ''Add'' [sp ''_exp'', Some (oneName prof)] (sp ''_add1''),
            plain ''Log'' [sp ''_add1''] (sp ''_log''),
            plain ''Relu'' [x] (sp ''_relu''),
            plain ''Add'' [sp ''_relu'', sp ''_log''] y]
         else if opType nd = ''LogSoftmax'' then
           [\<lparr>node_input = [x], node_output = [ls ''_sm''], node_name = [], opType = ''Softmax'',
             attribute = filter (\<lambda>a. attr_name a = ''axis'') (attribute nd)\<rparr>,
            plain ''Log'' [ls ''_sm''] y]
         else [nd])"

text \<open>The replacement of position \<open>i\<close> when the counters start at \<open>k\<close> and \<open>l\<close>.\<close>

definition repl_from :: "profile \<Rightarrow> nat \<Rightarrow> nat \<Rightarrow> NodeProto list \<Rightarrow> nat \<Rightarrow> NodeProto list" where
  "repl_from prof k l nodes i =
     (let nd = nodes ! i in
      if opType nd = ''Softplus'' then
        softplusNodes (oneName prof) (spPrefix prof @ show_nat (k + precedingOps ''Softplus'' nodes i))
          (first (node_input nd)) (first (node_output nd))
      else if opType nd = ''LogSoftmax'' then
        logsoftmaxNodes (lsPrefix prof @ show_nat (l + precedingOps ''LogSoftmax'' nodes i))
          (filter (\<lambda>a. attr_name a = ''axis'') (attribute nd))
          (first (node_input nd)) (first (node_output nd))
      else [nd])"

subsection \<open>A small graph used as a concrete input\<close>

text \<open>
  One half-precision input \<open>x\<close> with a symbolic batch dimension, a softplus node, a
  log-softmax node with an axis attribute, and a node the rewriter leaves alone.
\<close>

definition ex_graph :: GraphProto where
  "ex_graph =
     \<lparr>node =
        [\<lparr>node_input = [Some ''x''], node_output = [Some ''y''], node_name = ''sp'',
          opType = ''Softplus'', attribute = []\<rparr>,
         \<lparr>node_input = [Some ''y''], node_output = [Some ''z''], node_name = ''ls'',
          opType = ''LogSoftmax'',
          attribute = [\<lparr>attr_name = ''axis'', attr_type = 2, attr_i = 1, attr_g = None,
                        attr_graphs = []\<rparr>]\<rparr>,
         \<lparr>node_input = [Some ''z''], node_output = [Some ''out''], node_name = ''id'',
          opType = ''Identity'', attribute = []\<rparr>],
      initializer = [],
      graph_input =
        [\<lparr>vi_name = ''x'',
          vi_type = Some \<lparr>tensorType = Some \<lparr>elemType = 10,
            shape = Some [\<lparr>dimValue = JNum 0, dimParam = ''batch_size''\<rparr>,
                          \<lparr>dimValue = JNum 22, dimParam = []\<rparr>,
                          \<lparr>dimValue = JNum 0, dimParam = ''channels''\<rparr>]\<rparr>\<rparr>\<rparr>],
      graph_output = [],
      valueInfo = []\<rparr>"

text \<open>
  A model whose graph has one node, an \<open>If\<close> whose two branches are graphs of one node
  each, a softplus and a log-softmax; its one local function has a softplus node.
\<close>

definition ex_branch_graph :: GraphProto where
  "ex_branch_graph =
     \<lparr>node =
        [\<lparr>node_input = [Some ''c''], node_output = [Some ''y''], node_name = ''if'',
          opType = ''If'',
          attribute =
            [\<lparr>attr_name = ''then_branch'', attr_type = 5, attr_i = 0,
              attr_g = Some (SubGraph [SubNode [''x''] [''t''] ''sp'' ''Softplus'' []]),
              attr_graphs = []\<rparr>,
             \<lparr>attr_name = ''else_branch'', attr_type = 5, attr_i = 0,
              attr_g = Some (SubGraph [SubNode [''x''] [''e''] ''ls'' ''LogSoftmax'' []]),
              attr_graphs = []\<rparr>]\<rparr>],
      initializer = [],
      graph_input = [],
      graph_output = [],
      valueInfo = []\<rparr>"

definition ex_branch_model :: ModelProto where
  "ex_branch_model =
     \<lparr>graph = Some ex_branch_graph,
      trainingInfo = [],
      model_functions =
        [\<lparr>fn_name = ''f'',
          fn_node = [\<lparr>node_input = [Some ''a''], node_output = [Some ''b''], node_name = ''sp'',
                      opType = ''Softplus'', attribute = []\<rparr>]\<rparr>]\<rparr>"

section \<open>Inference engine (\<open>onnx-engine.ts\<close>)\<close>

subsection \<open>Positions and results\<close>

text \<open>
  Numbers that the claims treat as reals (probabilities, win rates, ownership) are
  \<open>real\<close>; rounding and the special values of floating point are outside the model. A
  side is the integer \<open>1\<close> (Black) or \<open>-1\<close> (White).
\<close>

text \<open>A history entry \<open>{ color, x, y }\<close>; \<open>y\<close> is \<open>None\<close> when it is \<open>NaN\<close>.\<close>

record HistMove =
  h_color :: int
  h_x :: int
  h_y :: "int option"

record KoInfo =
  ko_sign :: int
  ko_vertex :: "int \<times> int"

text \<open>
  Modelled from the spec: the class \<open>GoBoard\<close> of the package \<open>@kaya/goboard\<close> is not among
  the sources. A position is a signed grid with values \<open>1\<close>, \<open>0\<close>, \<open>-1\<close> and an optional
  ko-forbidden vertex (the side that is forbidden and the coordinate). \<open>new GoBoard(signMap)\<close>
  has no ko restriction, \<open>width\<close> is the length of the first row, and \<open>get([x, y])\<close> reads
  the grid and gives nothing outside of it. \<open>makeMove\<close>, which plays a stone or throws, is a
  parameter of the search below.
\<close>

record GoBoard =
  signMap :: "int list list"
  koInfo :: "KoInfo option"

definition newGoBoard :: "int list list \<Rightarrow> GoBoard" where
  "newGoBoard sm = \<lparr>signMap = sm, koInfo = None\<rparr>"

definition board_width :: "GoBoard \<Rightarrow> nat" where
  "board_width b = (case signMap b of [] \<Rightarrow> 0 | r # _ \<Rightarrow> length r)"

definition board_get :: "GoBoard \<Rightarrow> int \<Rightarrow> int \<Rightarrow> int option" where
  "board_get b x y =
     (if 0 \<le> y \<and> y < int (length (signMap b))
      then (let r = signMap b ! nat y
            in if 0 \<le> x \<and> x < int (length r) then Some (r ! nat x) else None)
      else None)"

record MoveSuggestion =
  move :: string
  probability :: real

record AnalysisResult =
  moveSuggestions :: "MoveSuggestion list"
  winRate :: real
  scoreLead :: real
  currentTurn :: string
  ownership :: "real list option"
  visits :: "nat option"

text \<open>
  What an analysis can throw: \<open>Engine not initialized\<close>, the error of a failed network run,
  or the \<open>RangeError\<close> of a typed array that cannot be allocated.
\<close>

datatype engine_error = NotInitialized | RunError | RangeError

text \<open>
  \<open>new Float32Array(n)\<close> throws a \<open>RangeError\<close> when \<open>n\<close> is not below \<open>2^53\<close> or the engine
  does not grant a buffer of \<open>4 * n\<close> bytes. The largest byte length it grants, \<open>mem\<close>, is a
  parameter.
\<close>

definition float32ArrayFits :: "nat \<Rightarrow> nat \<Rightarrow> bool" where
  "float32ArrayFits mem n = (n < 2 ^ 53 \<and> 4 * n \<le> mem)"

subsection \<open>Output decoding (\<open>processBatchResults\<close>, \<open>processResults\<close>)\<close>

text \<open>
  What the runtime delivered for one batch item: the policy logits, the three value logits,
  entry 2 of the miscvalue head. The ownership head is one flat array for the whole batch,
  or absent.
\<close>

record RawItem =
  raw_policy :: "real list"
  raw_value :: "real \<times> real \<times> real"
  raw_lead :: real

text \<open>
  The body of \<open>for (let b = 0; b < batchSize; b++)\<close>. The softmax over the policy and the
  choice of the ten best moves (lines 1349 to 1382 of the source) are the parameter
  \<open>topMoves\<close>. The ownership slice is \<open>ownershipData.subarray(b * size * size,
  (b + 1) * size * size)\<close>, and each entry is multiplied by the side to move.
\<close>

definition decodeItem ::
  "(real list \<Rightarrow> nat \<Rightarrow> MoveSuggestion list) \<Rightarrow> nat \<Rightarrow> real list option \<Rightarrow> nat \<Rightarrow> int \<Rightarrow> RawItem
   \<Rightarrow> AnalysisResult" where
  "decodeItem topMoves sz ownershipData b pla item =
     (let (v0, v1, v2) = raw_value item;
          sumValue = exp v0 + exp v1 + exp v2;
          winrateCurrentPlayer = exp v0 / sumValue;
          blackWinrate = (if pla = 1 then winrateCurrentPlayer else 1 - winrateCurrentPlayer);
          leadCurrentPlayer = raw_lead item * 20;
          blackLead = leadCurrentPlayer * real_of_int pla;
          own = (case ownershipData of
                   None \<Rightarrow> None
                 | Some d \<Rightarrow> Some (take (sz * sz) (drop (b * (sz * sz)) d)))
      in \<lparr>moveSuggestions = topMoves (raw_policy item) sz,
          winRate = blackWinrate,
          scoreLead = blackLead,
          currentTurn = (if pla = 1 then ''B'' else ''W''),
          ownership = (case own of None \<Rightarrow> None | Some vs \<Rightarrow> Some (map (\<lambda>v. v * real_of_int pla) vs)),
          visits = None\<rparr>)"

definition processBatchResults ::
  "(real list \<Rightarrow> nat \<Rightarrow> MoveSuggestion list) \<Rightarrow> RawItem list \<Rightarrow> real list option \<Rightarrow> int list \<Rightarrow> nat
   \<Rightarrow> AnalysisResult list" where
  "processBatchResults topMoves items ownershipData plas sz =
     map (\<lambda>(b, pla, item). decodeItem topMoves sz ownershipData b pla item)
         (zip [0..<length plas] (zip plas items))"

text \<open>\<open>processResults\<close> is the batch of one: \<open>processBatchResults(results, [pla], size, 1)[0]\<close>.\<close>

definition processResults ::
  "(real list \<Rightarrow> nat \<Rightarrow> MoveSuggestion list) \<Rightarrow> RawItem \<Rightarrow> real list option \<Rightarrow> int \<Rightarrow> nat
   \<Rightarrow> AnalysisResult" where
  "processResults topMoves item ownershipData pla sz =
     hd (processBatchResults topMoves [item] ownershipData [pla] sz)"

subsection \<open>Ko filter (\<open>_getKoVertex\<close>, \<open>_filterKoMoves\<close>)\<close>

definition letters :: string where
  "letters = ''ABCDEFGHJKLMNOPQRST''"

text \<open>\<open>`${letters[i]}`\<close>: the letter, or the text \<open>undefined\<close> outside the string.\<close>

definition letter_text :: "int \<Rightarrow> string" where
  "letter_text i = (if 0 \<le> i \<and> i < int (length letters) then [letters ! nat i] else ''undefined'')"

definition getKoVertex :: "GoBoard \<Rightarrow> int \<Rightarrow> nat \<Rightarrow> string option" where
  "getKoVertex board pla sz =
     (case koInfo board of
        None \<Rightarrow> None
      | Some k \<Rightarrow>
          if ko_sign k \<noteq> pla \<or> fst (ko_vertex k) = - 1 then None
          else Some (letter_text (fst (ko_vertex k)) @ show_int (int sz - snd (ko_vertex k))))"

definition filterKoMoves :: "AnalysisResult \<Rightarrow> GoBoard \<Rightarrow> int \<Rightarrow> nat \<Rightarrow> AnalysisResult" where
  "filterKoMoves result board pla sz =
     (case getKoVertex board pla sz of
        None \<Rightarrow> result
      | Some koMove \<Rightarrow>
          (let filtered = filter (\<lambda>s. move s \<noteq> koMove) (moveSuggestions result);
               total = foldl (\<lambda>acc s. acc + probability s) 0 filtered;
               filtered' = (if total > 0
                            then map (\<lambda>s. s\<lparr>probability := probability s / total\<rparr>) filtered
                            else filtered)
           in result\<lparr>moveSuggestions := filtered'\<rparr>))"

subsection \<open>One evaluation (\<open>_evaluateSingle\<close>, \<open>_evaluateSingleBuffered\<close>)\<close>

text \<open>
  Featurisation and the run of the network are one parameter \<open>run\<close>: from the board, the
  side to move, komi and the history to the raw outputs, or an error when the run throws
  (after the retry in the other element type that the source makes). Both functions of the
  source decode the outputs and filter the ko move; they differ in the buffers they use.
\<close>

type_synonym runner =
  "GoBoard \<Rightarrow> int \<Rightarrow> real \<Rightarrow> HistMove list \<Rightarrow> engine_error + (RawItem \<times> real list option)"

definition evaluateSingle ::
  "runner \<Rightarrow> (real list \<Rightarrow> nat \<Rightarrow> MoveSuggestion list) \<Rightarrow> GoBoard \<Rightarrow> int \<Rightarrow> real \<Rightarrow> HistMove list \<Rightarrow> nat
   \<Rightarrow> engine_error + AnalysisResult" where
  "evaluateSingle run topMoves board nextPla komi history sz =
     (case run board nextPla komi history of
        Inl e \<Rightarrow> Inl e
      | Inr (item, own) \<Rightarrow>
          Inr (filterKoMoves (processResults topMoves item own nextPla sz) board nextPla sz))"

subsection \<open>Search tree\<close>

text \<open>
  \<open>MCTSNode { N, W, P, children, expanded }\<close>. \<open>children\<close> is \<open>null\<close> or a \<open>Map\<close>, which
  keeps its entries in insertion order: an association list without repeated keys.
\<close>

datatype MCTSNode =
  MCTSNode (node_N: nat) (node_W: real) (node_P: real)
           (node_children: "(string \<times> MCTSNode) list option") (node_expanded: bool)

text \<open>\<open>Map.prototype.set\<close>: a present key keeps its place and takes the new value.\<close>

fun map_set :: "string \<Rightarrow> 'v \<Rightarrow> (string \<times> 'v) list \<Rightarrow> (string \<times> 'v) list" where
  "map_set k v [] = [(k, v)]"
| "map_set k v ((k', v') # kvs) = (if k' = k then (k, v) # kvs else (k', v') # map_set k v kvs)"

subsection \<open>Move strings (\<open>_parseMoveStr\<close>)\<close>

fun index_of :: "char \<Rightarrow> string \<Rightarrow> int" where
  "index_of c [] = - 1"
| "index_of c (d # ds) = (if c = d then 0 else (let i = index_of c ds in if i < 0 then - 1 else i + 1))"

definition toUpperCase :: "char \<Rightarrow> char" where
  "toUpperCase c =
     (let i = index_of c ''abcdefghijklmnopqrstuvwxyz''
      in if i < 0 then c else ''ABCDEFGHIJKLMNOPQRSTUVWXYZ'' ! nat i)"

definition is_digit :: "char \<Rightarrow> bool" where
  "is_digit c = (index_of c ''0123456789'' \<ge> 0)"

text \<open>
  The white space that \<open>parseInt\<close> skips, among the code units below 256 that a character
  is here: tab, line feed, vertical tab, form feed, carriage return, space and no-break space.
\<close>

definition is_space :: "char \<Rightarrow> bool" where
  "is_space c = (c \<in> set [CHR 0x09, CHR 0x0A, CHR 0x0B, CHR 0x0C, CHR 0x0D, CHR 0x20, CHR 0xA0])"

definition digits_value :: "string \<Rightarrow> nat" where
  "digits_value ds = foldl (\<lambda>acc c. 10 * acc + nat (index_of c ''0123456789'')) 0 ds"

text \<open>
  \<open>parseInt(s, 10)\<close>: white space is skipped, a sign is read, then the longest run of
  decimal digits; without a digit the result is \<open>NaN\<close>, here \<open>None\<close>.
\<close>

definition parseInt :: "string \<Rightarrow> int option" where
  "parseInt s =
     (let t = dropWhile is_space s;
          (neg, u) = (case t of
                        c # r \<Rightarrow> if c = CHR ''-'' then (True, r)
                                 else if c = CHR ''+'' then (False, r) else (False, t)
                      | [] \<Rightarrow> (False, t));
          ds = takeWhile is_digit u
      in if ds = [] then None
         else Some (if neg then - int (digits_value ds) else int (digits_value ds)))"

text \<open>
  The result is \<open>null\<close> (here \<open>None\<close>) or the pair \<open>[x, y]\<close>. When the text after the first
  character is not a number, \<open>y\<close> is \<open>NaN\<close>, both comparisons on it are false and the pair
  \<open>[x, NaN]\<close> is returned: the second component is optional.
\<close>

definition parseMoveStr :: "string \<Rightarrow> nat \<Rightarrow> (int \<times> int option) option" where
  "parseMoveStr mv sz =
     (if mv = [] \<or> mv = ''PASS'' then None
      else (let x = index_of (toUpperCase (hd mv)) letters;
                y = (case parseInt (tl mv) of None \<Rightarrow> None | Some n \<Rightarrow> Some (int sz - n))
            in if x < 0 \<or> (case y of None \<Rightarrow> False | Some y' \<Rightarrow> y' < 0 \<or> y' \<ge> int sz) then None
               else Some (x, y)))"

subsection \<open>Expansion (\<open>_expandNode\<close>)\<close>

definition fresh_child :: "real \<Rightarrow> MCTSNode" where
  "fresh_child p = MCTSNode 0 0 p None False"

text \<open>The body of \<open>for (const suggestion of eval_.moveSuggestions)\<close>, on the map so far.\<close>

definition expandStep ::
  "GoBoard \<Rightarrow> string option \<Rightarrow> nat \<Rightarrow> (string \<times> MCTSNode) list \<Rightarrow> MoveSuggestion
   \<Rightarrow> (string \<times> MCTSNode) list" where
  "expandStep board koVertex sz cs suggestion =
     (let mv = move suggestion in
      if mv \<noteq> ''PASS'' \<and>
         (koVertex = Some mv
          \<or> (case parseMoveStr mv sz of
                None \<Rightarrow> True
              | Some (x, None) \<Rightarrow> True
              | Some (x, Some y) \<Rightarrow> board_get board x y \<noteq> Some 0))
      then cs
      else map_set mv (fresh_child (probability suggestion)) cs)"

definition expandNode :: "MCTSNode \<Rightarrow> AnalysisResult \<Rightarrow> GoBoard \<Rightarrow> int \<Rightarrow> nat \<Rightarrow> MCTSNode" where
  "expandNode nd ev board pla sz =
     MCTSNode (node_N nd) (node_W nd) (node_P nd)
       (Some (foldl (expandStep board (getKoVertex board pla sz) sz) [] (moveSuggestions ev)))
       True"

subsection \<open>Selection\<close>

definition CPUCT :: real where "CPUCT = 1.5"

text \<open>
  The score \<open>q + u\<close> of a child, and the loop that keeps the first child with the largest
  score (\<open>bestScore\<close> starts at minus infinity, and a later child replaces the best only
  when its score is strictly larger).
\<close>

definition puct :: "nat \<Rightarrow> int \<Rightarrow> MCTSNode \<Rightarrow> real" where
  "puct parentN pla child =
     (let q = (if node_N child > 0
               then (if pla = 1 then node_W child / real (node_N child)
                     else 1 - node_W child / real (node_N child))
               else 0);
          u = (CPUCT * node_P child * sqrt (real (max parentN 1))) / (1 + real (node_N child))
      in q + u)"

fun bestOf ::
  "nat \<Rightarrow> int \<Rightarrow> (real \<times> string \<times> MCTSNode) option \<Rightarrow> (string \<times> MCTSNode) list
   \<Rightarrow> (real \<times> string \<times> MCTSNode) option" where
  "bestOf parentN pla best [] = best"
| "bestOf parentN pla best ((mv, child) # rest) =
     (let s = puct parentN pla child in
      bestOf parentN pla
        (case best of
           None \<Rightarrow> Some (s, mv, child)
         | Some (bestScore, _, _) \<Rightarrow> if s > bestScore then Some (s, mv, child) else best)
        rest)"

text \<open>\<open>hist.slice(-4)\<close>\<close>

definition last4 :: "HistMove list \<Rightarrow> HistMove list" where
  "last4 hist = drop (length hist - 4) hist"

definition two_passes :: "HistMove list \<Rightarrow> bool" where
  "two_passes hist =
     (let len = length hist in len \<ge> 2 \<and> h_x (hist ! (len - 1)) < 0 \<and> h_x (hist ! (len - 2)) < 0)"

type_synonym mover = "GoBoard \<Rightarrow> int \<Rightarrow> int \<times> int option \<Rightarrow> GoBoard option"

text \<open>What \<open>while (true)\<close> decides at the last entry of the path: stop, or the step to push.\<close>

definition selectStep ::
  "mover \<Rightarrow> nat \<Rightarrow> MCTSNode \<Rightarrow> GoBoard \<Rightarrow> int \<Rightarrow> HistMove list
   \<Rightarrow> (string \<times> MCTSNode \<times> GoBoard \<times> int \<times> HistMove list) option" where
  "selectStep makeMove sz nd board pla hist =
     (case node_children nd of
        None \<Rightarrow> None
      | Some cs \<Rightarrow>
      if \<not> node_expanded nd \<or> length cs = 0 then None
      else if two_passes hist then None
      else (case bestOf (node_N nd) pla None cs of
              None \<Rightarrow> None
            | Some (_, bestMove, bestChild) \<Rightarrow>
                if bestMove = ''PASS''
                then Some (bestMove, bestChild, newGoBoard (signMap board), (if pla = 1 then - 1 else 1),
                           last4 hist @ [\<lparr>h_color = pla, h_x = - 1, h_y = Some (- 1)\<rparr>])
                else (case parseMoveStr bestMove sz of
                        None \<Rightarrow> None
                      | Some parsed \<Rightarrow>
                          (case makeMove board pla parsed of
                             None \<Rightarrow> None
                           | Some newBoard \<Rightarrow>
                               Some (bestMove, bestChild, newBoard, (if pla = 1 then - 1 else 1),
                                     last4 hist @ [\<lparr>h_color = pla, h_x = fst parsed,
                                                    h_y = snd parsed\<rparr>])))))"

text \<open>
  The \<open>while (true)\<close> loop of the selection. The path is the list of keys from the root to
  the last entry; the last entry's node, board, side and history are returned with it. Every
  step goes from a node to one of its children.
\<close>

record Leaf =
  leaf_keys :: "string list"
  leaf_node :: MCTSNode
  leaf_board :: GoBoard
  leaf_pla :: int
  leaf_hist :: "HistMove list"

function selectPath ::
  "mover \<Rightarrow> nat \<Rightarrow> MCTSNode \<Rightarrow> GoBoard \<Rightarrow> int \<Rightarrow> HistMove list \<Rightarrow> Leaf" where
  "selectPath makeMove sz nd board pla hist =
     (case selectStep makeMove sz nd board pla hist of
        None \<Rightarrow> \<lparr>leaf_keys = [], leaf_node = nd, leaf_board = board, leaf_pla = pla, leaf_hist = hist\<rparr>
      | Some (mv, child, board', pla', hist') \<Rightarrow>
          (let l = selectPath makeMove sz child board' pla' hist'
           in l\<lparr>leaf_keys := mv # leaf_keys l\<rparr>))"
  by pat_completeness auto
termination
proof (relation "measure (\<lambda>(makeMove, sz, nd, board, pla, hist). size nd)")
  show "wf (measure (\<lambda>(makeMove, sz, nd, board, pla, hist). size nd))" by simp
next
  fix makeMove :: mover and sz nd board pla hist x2 mv y child ya board' yb pla' hist'
  assume step: "selectStep makeMove sz nd board pla hist = Some x2"
    and x2: "(mv, y) = x2" "(child, ya) = y" "(board', yb) = ya" "(pla', hist') = yb"
  have best_mem: "best = Some r \<or> (fst (snd r), snd (snd r)) \<in> set cs"
    if "bestOf (node_N nd) pla best cs = Some r" for cs best r
    using that
  proof (induction cs arbitrary: best)
    case Nil
    then show ?case by simp
  next
    case (Cons c cs)
    obtain k ch where c: "c = (k, ch)" by (cases c)
    let ?s = "puct (node_N nd) pla ch"
    let ?best' = "(case best of
           None \<Rightarrow> Some (?s, k, ch)
         | Some (bestScore, _, _) \<Rightarrow> if ?s > bestScore then Some (?s, k, ch) else best)"
    from Cons.prems have "bestOf (node_N nd) pla ?best' cs = Some r" by (simp add: c Let_def)
    from Cons.IH[OF this] have "?best' = Some r \<or> (fst (snd r), snd (snd r)) \<in> set cs" .
    then show ?case
    proof
      assume "?best' = Some r"
      then have "best = Some r \<or> r = (?s, k, ch)"
        by (cases best) (auto split: if_splits)
      then show ?thesis by (auto simp: c)
    next
      assume "(fst (snd r), snd (snd r)) \<in> set cs"
      then show ?thesis by simp
    qed
  qed
  from step x2 have step': "selectStep makeMove sz nd board pla hist = Some (mv, child, board', pla', hist')"
    by simp
  have "\<exists>cs. node_children nd = Some cs \<and> (mv, child) \<in> set cs"
  proof (cases "node_children nd")
    case None
    with step' show ?thesis by (simp add: selectStep_def)
  next
    case (Some cs)
    from step' Some obtain s where b: "bestOf (node_N nd) pla None cs = Some (s, mv, child)"
      unfolding selectStep_def
      by (simp split: if_splits option.splits prod.splits)
    from best_mem[OF b] Some show ?thesis by simp
  qed
  then obtain cs where cs: "node_children nd = Some cs" and mem: "(mv, child) \<in> set cs"
    by blast
  from mem have le: "size child \<le> size_list (size_prod (\<lambda>_. 0) size) cs"
    by (induction cs) auto
  have "size child < size nd"
  proof (cases nd)
    case (MCTSNode n w p c e)
    with cs le show ?thesis by simp
  qed
  then show "((makeMove, sz, child, board', pla', hist'), (makeMove, sz, nd, board, pla, hist))
        \<in> measure (\<lambda>(makeMove, sz, nd, board, pla, hist). size nd)"
    by simp
qed

declare selectPath.simps [simp del]

subsection \<open>Backup\<close>

text \<open>\<open>node.N++; node.W += value\<close>\<close>

definition bump :: "real \<Rightarrow> MCTSNode \<Rightarrow> MCTSNode" where
  "bump v nd =
     MCTSNode (js_succ (node_N nd)) (node_W nd + v) (node_P nd) (node_children nd) (node_expanded nd)"

text \<open>The entry of key \<open>k\<close> of a map, changed by \<open>f\<close>.\<close>

fun update_child ::
  "string \<Rightarrow> (MCTSNode \<Rightarrow> MCTSNode) \<Rightarrow> (string \<times> MCTSNode) list \<Rightarrow> (string \<times> MCTSNode) list" where
  "update_child k f [] = []"
| "update_child k f ((k', c) # kvs) = (if k' = k then (k', f c) # kvs else (k', c) # update_child k f kvs)"

definition with_children ::
  "((string \<times> MCTSNode) list \<Rightarrow> (string \<times> MCTSNode) list) \<Rightarrow> MCTSNode \<Rightarrow> MCTSNode" where
  "with_children g nd =
     MCTSNode (node_N nd) (node_W nd) (node_P nd)
       (case node_children nd of None \<Rightarrow> None | Some cs \<Rightarrow> Some (g cs)) (node_expanded nd)"

text \<open>
  The tree after one iteration: the nodes of the path are the root and, key by key, the
  chosen children. The last of them is first changed by \<open>atLeaf\<close> (the expansion, or
  nothing), and every node of the path is bumped by the value.
\<close>

fun backup :: "real \<Rightarrow> (MCTSNode \<Rightarrow> MCTSNode) \<Rightarrow> string list \<Rightarrow> MCTSNode \<Rightarrow> MCTSNode" where
  "backup v atLeaf [] nd = bump v (atLeaf nd)"
| "backup v atLeaf (k # ks) nd = bump v (with_children (update_child k (\<lambda>c. backup v atLeaf ks c)) nd)"

subsection \<open>The search (\<open>_runMCTS\<close>)\<close>

type_synonym evaluator =
  "GoBoard \<Rightarrow> int \<Rightarrow> real \<Rightarrow> HistMove list \<Rightarrow> nat \<Rightarrow> engine_error + AnalysisResult"

text \<open>
  One iteration of \<open>for (let v = 0; v < numVisits; v++)\<close> on the tree and \<open>rootEval\<close>.
  The leaf is the root exactly when the path has no key.
\<close>

definition mctsVisit ::
  "evaluator \<Rightarrow> mover \<Rightarrow> nat \<Rightarrow> real \<Rightarrow> GoBoard \<Rightarrow> int \<Rightarrow> HistMove list
   \<Rightarrow> MCTSNode \<times> AnalysisResult option \<Rightarrow> engine_error + (MCTSNode \<times> AnalysisResult option)" where
  "mctsVisit evalf makeMove sz komi rootBoard nextPla history st =
     (let (rt, rootEval) = st;
          leaf = selectPath makeMove sz rt rootBoard nextPla history
      in if \<not> node_expanded (leaf_node leaf) then
           (case evalf (leaf_board leaf) (leaf_pla leaf) komi (leaf_hist leaf) sz of
              Inl e \<Rightarrow> Inl e
            | Inr leafEval \<Rightarrow>
                Inr (backup (winRate leafEval)
                       (\<lambda>n. expandNode n leafEval (leaf_board leaf) (leaf_pla leaf) sz)
                       (leaf_keys leaf) rt,
                     if leaf_keys leaf = [] then Some leafEval else rootEval))
         else
           (let v = (if node_N (leaf_node leaf) > 0
                     then node_W (leaf_node leaf) / real (node_N (leaf_node leaf)) else 0.5)
            in Inr (backup v (\<lambda>n. n) (leaf_keys leaf) rt, rootEval)))"

text \<open>
  The loop \<open>for (let v = 0; v < numVisits; v++)\<close> from the counter value \<open>v\<close> on. The counter
  is a whole number that is compared with the number \<open>numVisits\<close>; it does not get past
  \<open>2^53\<close>, so the loop does not end when \<open>numVisits\<close> is larger or infinite, and then the
  function has no value (\<open>None\<close>). A failed evaluation ends the search with its error.
\<close>

partial_function (option) mctsLoop ::
  "evaluator \<Rightarrow> mover \<Rightarrow> nat \<Rightarrow> real \<Rightarrow> GoBoard \<Rightarrow> int \<Rightarrow> HistMove list \<Rightarrow> jsnum \<Rightarrow> nat
   \<Rightarrow> MCTSNode \<times> AnalysisResult option
   \<Rightarrow> (engine_error + (MCTSNode \<times> AnalysisResult option)) option" where
  "mctsLoop evalf makeMove sz komi rootBoard nextPla history numVisits v st =
     (if js_lt (Fin (real v)) numVisits
      then (case mctsVisit evalf makeMove sz komi rootBoard nextPla history st of
              Inl e \<Rightarrow> Some (Inl e)
            | Inr st' \<Rightarrow> mctsLoop evalf makeMove sz komi rootBoard nextPla history numVisits (js_succ v) st')
      else Some (Inr st))"

text \<open>The loop body \<open>n\<close> times over, stopping at the first evaluation that fails.\<close>

fun mctsIter ::
  "evaluator \<Rightarrow> mover \<Rightarrow> nat \<Rightarrow> real \<Rightarrow> GoBoard \<Rightarrow> int \<Rightarrow> HistMove list \<Rightarrow> nat
   \<Rightarrow> MCTSNode \<times> AnalysisResult option \<Rightarrow> engine_error + (MCTSNode \<times> AnalysisResult option)" where
  "mctsIter evalf makeMove sz komi rootBoard nextPla history 0 st = Inr st"
| "mctsIter evalf makeMove sz komi rootBoard nextPla history (Suc n) st =
     (case mctsVisit evalf makeMove sz komi rootBoard nextPla history st of
        Inl e \<Rightarrow> Inl e
      | Inr st' \<Rightarrow> mctsIter evalf makeMove sz komi rootBoard nextPla history n st')"

text \<open>
  The suggestions of the result: the children by visit count, largest first (the sort is
  stable), the first ten, each with its share of the visits of all children.
\<close>

definition mctsSuggestions :: "MCTSNode \<Rightarrow> MoveSuggestion list" where
  "mctsSuggestions rt =
     (case node_children rt of
        None \<Rightarrow> []
      | Some cs \<Rightarrow>
          (let totalChildVisits = foldl (\<lambda>s c. s + node_N c) 0 (map snd cs);
               sorted = sort_key (\<lambda>(mv, c). - int (node_N c)) cs
           in map (\<lambda>(mv, child).
                     \<lparr>move = mv,
                      probability = (if totalChildVisits > 0
                                     then real (node_N child) / real totalChildVisits
                                     else node_P child)\<rparr>)
                  (take 10 sorted)))"

text \<open>
  \<open>_runMCTS\<close>: the two scratch buffers \<open>new Float32Array(22 * size * size)\<close> and
  \<open>new Float32Array(19)\<close> are allocated first, then the loop runs from the fresh root, the root
  evaluation is made if the loop did not make it, and the result is read off the root.
\<close>

definition runMCTS ::
  "nat \<Rightarrow> evaluator \<Rightarrow> mover \<Rightarrow> GoBoard \<Rightarrow> int \<Rightarrow> real \<Rightarrow> HistMove list \<Rightarrow> jsnum \<Rightarrow> nat
   \<Rightarrow> (engine_error + AnalysisResult) option" where
  "runMCTS mem evalf makeMove rootBoard nextPla komi history numVisits sz =
     (if \<not> float32ArrayFits mem (22 * sz * sz) \<or> \<not> float32ArrayFits mem 19 then Some (Inl RangeError)
      else
       (case mctsLoop evalf makeMove sz komi rootBoard nextPla history numVisits 0
               (MCTSNode 0 0 1 None False, None) of
          None \<Rightarrow> None
        | Some (Inl e) \<Rightarrow> Some (Inl e)
        | Some (Inr (rt, rootEval)) \<Rightarrow>
            (case (case rootEval of
                     Some r \<Rightarrow> Inr r
                   | None \<Rightarrow> evalf rootBoard nextPla komi history sz) of
               Inl e \<Rightarrow> Some (Inl e)
             | Inr rootEval' \<Rightarrow>
                 Some (Inr \<lparr>moveSuggestions = mctsSuggestions rt,
                      winRate = (if node_N rt > 0 then node_W rt / real (node_N rt) else winRate rootEval'),
                      scoreLead = scoreLead rootEval',
                      currentTurn = (if nextPla = 1 then ''B'' else ''W''),
                      ownership = ownership rootEval',
                      visits = Some (node_N rt)\<rparr>))))"

subsection \<open>\<open>analyzePosition\<close>\<close>

text \<open>
  The options bag. A field that is absent is \<open>None\<close>. \<open>nextToPlay\<close> is a text and is tested
  for truthiness, so the empty text counts as absent. \<open>numVisits\<close> is a number.
\<close>

record EngineAnalysisOptions =
  opt_komi :: "real option"
  opt_nextToPlay :: "string option"
  opt_history :: "HistMove list option"
  opt_koInfo :: "KoInfo option"
  opt_numVisits :: "jsnum option"

text \<open>The two nested loops that count the stones, over \<open>x, y < size\<close>.\<close>

definition countStones :: "GoBoard \<Rightarrow> nat \<Rightarrow> int \<Rightarrow> nat" where
  "countStones board sz s =
     length (filter (\<lambda>(y, x). board_get board (int x) (int y) = Some s)
               (concat (map (\<lambda>y. map (\<lambda>x. (y, x)) [0..<sz]) [0..<sz])))"

definition nextPlayer :: "GoBoard \<Rightarrow> nat \<Rightarrow> string option \<Rightarrow> int" where
  "nextPlayer board sz nextToPlay =
     (case nextToPlay of
        Some (c # cs) \<Rightarrow> if c # cs = ''W'' then - 1 else 1
      | _ \<Rightarrow> if countStones board sz 1 = countStones board sz (- 1) then 1 else - 1)"

text \<open>
  \<open>session\<close> tells whether the engine holds an inference session; without one the analysis
  throws before anything else.
\<close>

definition analyzePosition ::
  "nat \<Rightarrow> bool \<Rightarrow> runner \<Rightarrow> (real list \<Rightarrow> nat \<Rightarrow> MoveSuggestion list) \<Rightarrow> mover \<Rightarrow> int list list
   \<Rightarrow> EngineAnalysisOptions \<Rightarrow> (engine_error + AnalysisResult) option" where
  "analyzePosition mem session run topMoves makeMove sm options =
     (if \<not> session then Some (Inl NotInitialized)
      else
       (let board0 = newGoBoard sm;
            sz = board_width board0;
            nextPla = nextPlayer board0 sz (opt_nextToPlay options);
            komi = (case opt_komi options of None \<Rightarrow> 7.5 | Some k \<Rightarrow> k);
            history = (case opt_history options of None \<Rightarrow> [] | Some h \<Rightarrow> h);
            numVisits = (case opt_numVisits options of None \<Rightarrow> Fin 1 | Some n \<Rightarrow> n);
            board = (case opt_koInfo options of
                       None \<Rightarrow> board0
                     | Some k \<Rightarrow> if ko_sign k \<noteq> 0 then board0\<lparr>koInfo := Some k\<rparr> else board0)
        in if js_lt (Fin 1) numVisits
           then runMCTS mem (evaluateSingle run topMoves) makeMove board nextPla komi history numVisits sz
           else Some (evaluateSingle run topMoves board nextPla komi history sz)))"

subsection \<open>Concrete inputs\<close>

text \<open>
  An evaluator that always answers with a pass and two points, a board library that rejects
  every move, a 2 by 2 board with one black stone, and a result whose first suggestion
  carries all of the probability.
\<close>

definition ex_eval :: evaluator where
  "ex_eval = (\<lambda>b p k h s.
      Inr \<lparr>moveSuggestions = [\<lparr>move = ''PASS'', probability = 1 / 2\<rparr>,
                               \<lparr>move = ''A1'', probability = 1 / 4\<rparr>,
                               \<lparr>move = ''B1'', probability = 1 / 4\<rparr>],
           winRate = 1 / 2, scoreLead = 0, currentTurn = ''B'', ownership = None,
           visits = None\<rparr>)"

definition ex_mover :: mover where
  "ex_mover = (\<lambda>b p v. None)"

definition ex_board :: GoBoard where
  "ex_board = \<lparr>signMap = [[0, 1], [0, 0]], koInfo = Some \<lparr>ko_sign = 1, ko_vertex = (0, 1)\<rparr>\<rparr>"


definition ex_item :: RawItem where
  "ex_item = \<lparr>raw_policy = [], raw_value = (0, 0, 0), raw_lead = 1 / 4\<rparr>"

definition ex_run :: runner where
  "ex_run = (\<lambda>b p k h. Inr (ex_item, Some [1 / 2, 0, 0, 0]))"

definition ex_options :: EngineAnalysisOptions where
  "ex_options = \<lparr>opt_komi = None, opt_nextToPlay = None, opt_history = None, opt_koInfo = None,
                  opt_numVisits = None\<rparr>"

subsection \<open>Black's frame\<close>

text \<open>
  What it means that a result is the raw output of the network, which speaks for the side
  \<open>pla\<close>, brought to Black's frame: the score lead and the ownership values are multiplied by
  the side, the turn names it.
\<close>

definition black_frame :: "int \<Rightarrow> nat \<Rightarrow> RawItem \<Rightarrow> real list option \<Rightarrow> AnalysisResult \<Rightarrow> bool" where
  "black_frame pla sz item own r =
     (scoreLead r = raw_lead item * 20 * real_of_int pla
      \<and> ownership r = (case own of
                         None \<Rightarrow> None
                       | Some d \<Rightarrow> Some (map (\<lambda>v. v * real_of_int pla) (take (sz * sz) d))))"

definition black_winRate :: "int \<Rightarrow> RawItem \<Rightarrow> real" where
  "black_winRate pla item =
     (case raw_value item of
        (v0, v1, v2) \<Rightarrow>
          if pla = 1 then exp v0 / (exp v0 + exp v1 + exp v2)
          else 1 - exp v0 / (exp v0 + exp v1 + exp v2))"

section \<open>Homography and perspective warp (\<open>perspective.ts\<close>)\<close>

subsection \<open>Numbers\<close>







subsection \<open>\<open>solveLinear\<close>\<close>








subsection \<open>\<open>computeHomography\<close>, \<open>applyHomography\<close>, \<open>invertMatrix3\<close>\<close>







subsection \<open>Sampling one output pixel\<close>










subsection \<open>\<open>warpPerspective\<close>\<close>






subsection \<open>An arithmetic to compute with\<close>





subsection \<open>Concrete images\<close>



section \<open>Corner ordering (\<open>corners.ts\<close>: \<open>orderCorners\<close>)\<close>








subsection \<open>Orientation\<close>





section \<open>Properties of the position-file emitter\<close>












section \<open>Properties of the model rewriter\<close>

subsection \<open>The static-dimension passes leave nodes and initializers alone\<close>

lemma staticPassGPU_frame:
  "node (fst (staticPassGPU bs g)) = node g \<and> initializer (fst (staticPassGPU bs g)) = initializer g"
  by (simp add: staticPassGPU_def split: prod.splits)

lemma staticPassNN_frame:
  "node (fst (staticPassNN bs sz g)) = node g \<and> initializer (fst (staticPassNN bs sz g)) = initializer g"
  by (simp add: staticPassNN_def split: prod.splits)

subsection \<open>The decomposition loop, position by position\<close>

lemma precedingOps_0 [simp]: "precedingOps op nodes 0 = 0"
  by (simp add: precedingOps_def)

lemma precedingOps_Suc [simp]:
  "precedingOps op (nd # nodes) (Suc i) = (if opType nd = op then 1 else 0) + precedingOps op nodes i"
  by (simp add: precedingOps_def)

lemma repl_from_Suc:
  "repl_from prof k l (nd # nodes) (Suc i) =
     repl_from prof (k + (if opType nd = ''Softplus'' then 1 else 0))
                    (l + (if opType nd = ''LogSoftmax'' then 1 else 0)) nodes i"
  by (simp add: repl_from_def Let_def add.assoc)

lemma upt_shift: "[0..<Suc n] = 0 # map Suc [0..<n]"
  by (simp add: upt_conv_Cons map_Suc_upt del: upt_Suc)

lemma decomposeLoop_newNodes:
  "newNodes (decomposeLoop prof decls nds st) =
     newNodes st @ concat (map (repl_from prof (softplusCount st) (logsoftmaxCount st) nds) [0..<length nds])"
proof (induction nds arbitrary: st)
  case Nil
  then show ?case by simp
next
  case (Cons nd nds)
  have step: "repl_from prof (softplusCount st) (logsoftmaxCount st) (nd # nds) 0 @
        concat (map (repl_from prof (softplusCount (decomposeNode prof decls nd st))
                       (logsoftmaxCount (decomposeNode prof decls nd st)) nds) [0..<length nds])
      = concat (map (repl_from prof (softplusCount st) (logsoftmaxCount st) (nd # nds)) [0..<length (nd # nds)])"
    by (simp only: length_Cons upt_shift list.map concat.simps map_map comp_def repl_from_Suc)
       (simp add: decomposeNode_def Let_def)
  have "newNodes (decomposeNode prof decls nd st) =
          newNodes st @ repl_from prof (softplusCount st) (logsoftmaxCount st) (nd # nds) 0"
    by (simp add: decomposeNode_def repl_from_def Let_def)
  with Cons.IH[of "decomposeNode prof decls nd st"] step show ?case by simp
qed

lemma repl_from_0: "repl_from prof 0 0 nodes = replacement prof nodes"
  by (rule ext) (simp add: repl_from_def replacement_def Let_def softplusNodes_def logsoftmaxNodes_def mkNode_def)

lemma decomposeLoop_needsOneConst:
  "needsOneConst (decomposeLoop prof decls nds st) =
     (needsOneConst st \<or> (\<exists>n \<in> set nds. opType n = ''Softplus''))"
  by (induction nds arbitrary: st) (auto simp: decomposeNode_def Let_def)

lemma replacement_ops:
  assumes "nd \<in> set (replacement prof nodes i)"
  shows "opType nd \<noteq> ''Softplus'' \<and> opType nd \<noteq> ''LogSoftmax''"
proof (cases "opType (nodes ! i) = ''Softplus''")
  case True
  with assms have "opType nd \<in> {''Abs'', ''Neg'', ''Exp'', ''Add'', ''Log'', ''Relu''}"
    by (auto simp: replacement_def Let_def)
  then show ?thesis by auto
next
  case False
  show ?thesis
  proof (cases "opType (nodes ! i) = ''LogSoftmax''")
    case True
    with False assms have "opType nd \<in> {''Softmax'', ''Log''}"
      by (auto simp: replacement_def Let_def)
    then show ?thesis by auto
  next
    case F2: False
    with False assms show ?thesis by (simp add: replacement_def Let_def)
  qed
qed

lemma oneBytes_fp32: "oneBytes False = [0x00, 0x00, 0x80, 0x3f]"
  by (simp add: oneBytes_def le_bytes32_def float32_bits_def drop_bit_eq_div)

lemma oneBytes_fp16: "oneBytes True = [0x00, 0x3c]"
  by (simp add: oneBytes_def)

lemma one_value_fp32: "ieee_value 8 23 (le_nat [0x00, 0x00, 0x80, 0x3f]) = Some 1"
  by (simp add: ieee_value_def Let_def)

lemma one_value_fp16: "ieee_value 5 10 (le_nat [0x00, 0x3c]) = Some 1"
  by (simp add: ieee_value_def Let_def)

lemma decomposePass_result:
  "node (fst (decomposePass prof fp16 g)) = concat (map (replacement prof (node g)) [0..<length (node g)])
   \<and> initializer (fst (decomposePass prof fp16 g)) =
       initializer g @
       (if \<exists>nd \<in> set (node g). opType nd = ''Softplus''
        then [\<lparr>dims = [], dataType = (if fp16 then 10 else 1),
               rawData = (if fp16 then [0x00, 0x3c] else [0x00, 0x00, 0x80, 0x3f]),
               tensor_name = oneName prof\<rparr>]
        else [])"
  by (simp add: decomposePass_def Let_def decomposeLoop_newNodes decomposeLoop_needsOneConst
      loop_init_def repl_from_0 oneTensor_def oneBytes_fp32 oneBytes_fp16 ONNX_FLOAT_def
      ONNX_FLOAT16_def)

lemma replaced_nodes_ops:
  assumes "nd \<in> set (concat (map (replacement prof nodes) [0..<length nodes]))"
  shows "opType nd \<noteq> ''Softplus'' \<and> opType nd \<noteq> ''LogSoftmax''"
proof -
  from assms obtain i where "nd \<in> set (replacement prof nodes i)" by auto
  then show ?thesis by (rule replacement_ops)
qed

lemma replacement_other:
  assumes "opType (nodes ! i) \<noteq> ''Softplus''" "opType (nodes ! i) \<noteq> ''LogSoftmax''"
  shows "replacement prof nodes i = [nodes ! i]"
  using assms by (simp add: replacement_def Let_def)

lemma convertModelForWebGPU_encoded:
  assumes "convertModelForWebGPU dec enc buf optBatch = Inr r"
  shows "\<exists>m g. dec buf = Some m \<and> graph m = Some g
           \<and> enc (m\<lparr>graph := Some (fst (rewriteWebGPU (case optBatch of None \<Rightarrow> WEBGPU_BATCH_SIZE | Some b \<Rightarrow> b) g))\<rparr>)
               = Some (buffer r)"
proof -
  from assms obtain m where m: "dec buf = Some m"
    by (cases "dec buf") (simp_all add: convertModelForWebGPU_def Let_def)
  from assms m obtain g where g: "graph m = Some g"
    by (cases "graph m") (simp_all add: convertModelForWebGPU_def Let_def)
  let ?bs = "case optBatch of None \<Rightarrow> WEBGPU_BATCH_SIZE | Some b \<Rightarrow> b"
  obtain g' cs where rw: "rewriteWebGPU ?bs g = (g', cs)" by (cases "rewriteWebGPU ?bs g")
  from assms m g rw have "enc (m\<lparr>graph := Some g'\<rparr>) = Some (buffer r)"
    by (cases "enc (m\<lparr>graph := Some g'\<rparr>)")
       (auto simp: convertModelForWebGPU_def Let_def)
  with m g rw show ?thesis by simp
qed

lemma convertModelForWebNN_encoded:
  assumes "convertModelForWebNN dec enc buf optBatch optBoard = Inr r"
  shows "\<exists>m g. dec buf = Some m \<and> graph m = Some g
           \<and> enc (m\<lparr>graph := Some (fst (rewriteWebNN (case optBatch of None \<Rightarrow> 1 | Some b \<Rightarrow> b)
                                            (case optBoard of None \<Rightarrow> 19 | Some b \<Rightarrow> b) g))\<rparr>)
               = Some (buffer r)"
proof -
  from assms obtain m where m: "dec buf = Some m"
    by (cases "dec buf") (simp_all add: convertModelForWebNN_def Let_def)
  from assms m obtain g where g: "graph m = Some g"
    by (cases "graph m") (simp_all add: convertModelForWebNN_def Let_def)
  let ?bs = "case optBatch of None \<Rightarrow> 1 | Some b \<Rightarrow> b"
  let ?sz = "case optBoard of None \<Rightarrow> 19 | Some b \<Rightarrow> b"
  obtain g' cs where rw: "rewriteWebNN ?bs ?sz g = (g', cs)" by (cases "rewriteWebNN ?bs ?sz g")
  from assms m g rw have "enc (m\<lparr>graph := Some g'\<rparr>) = Some (buffer r)"
    by (cases "enc (m\<lparr>graph := Some g'\<rparr>)")
       (auto simp: convertModelForWebNN_def Let_def)
  with m g rw show ?thesis by simp
qed

text \<open>
  Claim C1 (as amended). For every graph, in both converters, the operator-decomposition
  pass replaces every softplus and every log-softmax node of the node list of the graph of
  the model, and leaves none in that list: the node list afterwards is the input node list
  with each node replaced, in order, by its \<open>replacement\<close> (seven nodes Abs, Neg, Exp,
  Add-with-constant-one, Log, Relu, Add for a softplus with input \<open>x\<close> and output \<open>y\<close>;
  Softmax with the axis attribute followed by Log for a log-softmax; the node itself, with
  its attributes and the graphs they hold, for any other node). Nodes that are not in this
  list are not visited: the model that is encoded is the decoded model with its graph
  replaced, so that the graphs held by attributes, the local functions and the training
  information are as decoded. If at least one softplus was present in the list, exactly one
  initializer is appended, named for the converter, whose raw data is the two bytes
  \<open>0x00 0x3C\<close> when the first input's element type is 16-bit half and the four bytes
  \<open>00 00 80 3F\<close> otherwise; both byte sequences are the little-endian IEEE-754 encodings of
  1.0. Without a softplus in the list the initializers are unchanged.
\<close>

theorem decomposition_removes_softplus_logsoftmax:
  "node (fst (rewriteWebGPU bs g))
      = concat (map (replacement webgpu_profile (node g)) [0..<length (node g)])
   \<and> (\<forall>nd \<in> set (node (fst (rewriteWebGPU bs g))).
          opType nd \<noteq> ''Softplus'' \<and> opType nd \<noteq> ''LogSoftmax'')
   \<and> initializer (fst (rewriteWebGPU bs g)) =
       initializer g @
       (if \<exists>nd \<in> set (node g). opType nd = ''Softplus''
        then [\<lparr>dims = [], dataType = (if isFp16 g then 10 else 1),
               rawData = (if isFp16 g then [0x00, 0x3c] else [0x00, 0x00, 0x80, 0x3f]),
               tensor_name = ''__webgpu_const_one''\<rparr>]
        else [])
   \<and> node (fst (rewriteWebNN bs boardSize g))
      = concat (map (replacement webnn_profile (node g)) [0..<length (node g)])
   \<and> (\<forall>nd \<in> set (node (fst (rewriteWebNN bs boardSize g))).
          opType nd \<noteq> ''Softplus'' \<and> opType nd \<noteq> ''LogSoftmax'')
   \<and> initializer (fst (rewriteWebNN bs boardSize g)) =
       initializer g @
       (if \<exists>nd \<in> set (node g). opType nd = ''Softplus''
        then [\<lparr>dims = [], dataType = (if isFp16 g then 10 else 1),
               rawData = (if isFp16 g then [0x00, 0x3c] else [0x00, 0x00, 0x80, 0x3f]),
               tensor_name = ''__webnn_const_one''\<rparr>]
        else [])
   \<and> ieee_value 5 10 (le_nat [0x00, 0x3c]) = Some 1
   \<and> ieee_value 8 23 (le_nat [0x00, 0x00, 0x80, 0x3f]) = Some 1
   \<and> (\<forall>i < length (node g).
         opType (node g ! i) \<noteq> ''Softplus'' \<and> opType (node g ! i) \<noteq> ''LogSoftmax'' \<longrightarrow>
         replacement webgpu_profile (node g) i = [node g ! i]
         \<and> replacement webnn_profile (node g) i = [node g ! i])
   \<and> (convertModelForWebGPU dec enc buf optBatch = Inr r \<longrightarrow>
        (\<exists>m g0. dec buf = Some m \<and> graph m = Some g0
           \<and> enc (m\<lparr>graph := Some (fst (rewriteWebGPU (case optBatch of None \<Rightarrow> WEBGPU_BATCH_SIZE | Some b \<Rightarrow> b) g0))\<rparr>)
               = Some (buffer r)))
   \<and> (convertModelForWebNN dec enc buf optBatch optBoard = Inr r' \<longrightarrow>
        (\<exists>m g0. dec buf = Some m \<and> graph m = Some g0
           \<and> enc (m\<lparr>graph := Some (fst (rewriteWebNN (case optBatch of None \<Rightarrow> 1 | Some b \<Rightarrow> b)
                                            (case optBoard of None \<Rightarrow> 19 | Some b \<Rightarrow> b) g0))\<rparr>)
               = Some (buffer r')))"
proof -
  have gpu: "fst (rewriteWebGPU bs g) = fst (decomposePass webgpu_profile (isFp16 g) (fst (staticPassGPU bs g)))"
    by (simp add: rewriteWebGPU_def Let_def split: prod.splits)
  have nn: "fst (rewriteWebNN bs boardSize g) = fst (decomposePass webnn_profile (isFp16 g) (fst (staticPassNN bs boardSize g)))"
    by (simp add: rewriteWebNN_def Let_def split: prod.splits)
  have n1: "node (fst (rewriteWebGPU bs g))
      = concat (map (replacement webgpu_profile (node g)) [0..<length (node g)])"
    unfolding gpu using decomposePass_result[of webgpu_profile "isFp16 g" "fst (staticPassGPU bs g)"]
    by (simp add: staticPassGPU_frame)
  have n2: "node (fst (rewriteWebNN bs boardSize g))
      = concat (map (replacement webnn_profile (node g)) [0..<length (node g)])"
    unfolding nn using decomposePass_result[of webnn_profile "isFp16 g" "fst (staticPassNN bs boardSize g)"]
    by (simp add: staticPassNN_frame)
  have i1: "initializer (fst (rewriteWebGPU bs g)) =
       initializer g @
       (if \<exists>nd \<in> set (node g). opType nd = ''Softplus''
        then [\<lparr>dims = [], dataType = (if isFp16 g then 10 else 1),
               rawData = (if isFp16 g then [0x00, 0x3c] else [0x00, 0x00, 0x80, 0x3f]),
               tensor_name = ''__webgpu_const_one''\<rparr>]
        else [])"
    unfolding gpu using decomposePass_result[of webgpu_profile "isFp16 g" "fst (staticPassGPU bs g)"]
    by (simp add: staticPassGPU_frame webgpu_profile_def)
  have i2: "initializer (fst (rewriteWebNN bs boardSize g)) =
       initializer g @
       (if \<exists>nd \<in> set (node g). opType nd = ''Softplus''
        then [\<lparr>dims = [], dataType = (if isFp16 g then 10 else 1),
               rawData = (if isFp16 g then [0x00, 0x3c] else [0x00, 0x00, 0x80, 0x3f]),
               tensor_name = ''__webnn_const_one''\<rparr>]
        else [])"
    unfolding nn using decomposePass_result[of webnn_profile "isFp16 g" "fst (staticPassNN bs boardSize g)"]
    by (simp add: staticPassNN_frame webnn_profile_def)
  have o1: "\<forall>nd \<in> set (node (fst (rewriteWebGPU bs g))).
          opType nd \<noteq> ''Softplus'' \<and> opType nd \<noteq> ''LogSoftmax''"
    unfolding n1 using replaced_nodes_ops by blast
  have o2: "\<forall>nd \<in> set (node (fst (rewriteWebNN bs boardSize g))).
          opType nd \<noteq> ''Softplus'' \<and> opType nd \<noteq> ''LogSoftmax''"
    unfolding n2 using replaced_nodes_ops by blast
  have k: "\<forall>i < length (node g).
         opType (node g ! i) \<noteq> ''Softplus'' \<and> opType (node g ! i) \<noteq> ''LogSoftmax'' \<longrightarrow>
         replacement webgpu_profile (node g) i = [node g ! i]
         \<and> replacement webnn_profile (node g) i = [node g ! i]"
    by (simp add: replacement_other)
  have e1: "convertModelForWebGPU dec enc buf optBatch = Inr r \<longrightarrow>
        (\<exists>m g0. dec buf = Some m \<and> graph m = Some g0
           \<and> enc (m\<lparr>graph := Some (fst (rewriteWebGPU (case optBatch of None \<Rightarrow> WEBGPU_BATCH_SIZE | Some b \<Rightarrow> b) g0))\<rparr>)
               = Some (buffer r))"
    using convertModelForWebGPU_encoded by blast
  have e2: "convertModelForWebNN dec enc buf optBatch optBoard = Inr r' \<longrightarrow>
        (\<exists>m g0. dec buf = Some m \<and> graph m = Some g0
           \<and> enc (m\<lparr>graph := Some (fst (rewriteWebNN (case optBatch of None \<Rightarrow> 1 | Some b \<Rightarrow> b)
                                            (case optBoard of None \<Rightarrow> 19 | Some b \<Rightarrow> b) g0))\<rparr>)
               = Some (buffer r'))"
    using convertModelForWebNN_encoded by blast
  from n1 o1 i1 n2 o2 i2 one_value_fp16 one_value_fp32 k e1 e2 show ?thesis
    by (intro conjI)
qed

text \<open>
  The same at \<open>ex_graph\<close>: its softplus node becomes the seven nodes, its log-softmax the
  two, its third node stays, and the one initializer holds the half-precision bytes.
\<close>

theorem decomposition_removes_softplus_logsoftmax_witness:
  "(\<exists>nd \<in> set (node ex_graph). opType nd = ''Softplus'')
   \<and> isFp16 ex_graph
   \<and> map opType (node (fst (rewriteWebGPU 8 ex_graph)))
       = [''Abs'', ''Neg'', ''Exp'', ''Add'', ''Log'', ''Relu'', ''Add'', ''Softmax'', ''Log'', ''Identity'']
   \<and> list_all (\<lambda>nd. opType nd \<noteq> ''Softplus'' \<and> opType nd \<noteq> ''LogSoftmax'')
        (node (fst (rewriteWebNN 8 19 ex_graph)))
   \<and> map rawData (initializer (fst (rewriteWebGPU 8 ex_graph))) = [[0x00, 0x3c]]
   \<and> (2 :: nat) < length (node ex_graph)
   \<and> replacement webgpu_profile (node ex_graph) 2 = [node ex_graph ! 2]"
proof -
  note t = decomposition_removes_softplus_logsoftmax[where bs = 8 and g = ex_graph and boardSize = 19]
  have sp: "\<exists>nd \<in> set (node ex_graph). opType nd = ''Softplus''"
    by (simp add: ex_graph_def)
  have fp: "isFp16 ex_graph"
    by (simp add: ex_graph_def isFp16_def ONNX_FLOAT16_def)
  have ops: "map opType (concat (map (replacement webgpu_profile (node ex_graph)) [0..<length (node ex_graph)]))
       = [''Abs'', ''Neg'', ''Exp'', ''Add'', ''Log'', ''Relu'', ''Add'', ''Softmax'', ''Log'', ''Identity'']"
    by (simp add: ex_graph_def replacement_def Let_def upt_rec)
  from t have "node (fst (rewriteWebGPU 8 ex_graph))
      = concat (map (replacement webgpu_profile (node ex_graph)) [0..<length (node ex_graph)])"
    by (rule conjunct1)
  with ops have c1: "map opType (node (fst (rewriteWebGPU 8 ex_graph)))
       = [''Abs'', ''Neg'', ''Exp'', ''Add'', ''Log'', ''Relu'', ''Add'', ''Softmax'', ''Log'', ''Identity'']"
    by (simp only:)
  have "\<forall>nd \<in> set (node (fst (rewriteWebNN 8 19 ex_graph))).
          opType nd \<noteq> ''Softplus'' \<and> opType nd \<noteq> ''LogSoftmax''"
    by (rule t[THEN conjunct2, THEN conjunct2, THEN conjunct2, THEN conjunct2, THEN conjunct1])
  then have c2: "list_all (\<lambda>nd. opType nd \<noteq> ''Softplus'' \<and> opType nd \<noteq> ''LogSoftmax'')
        (node (fst (rewriteWebNN 8 19 ex_graph)))"
    by (simp only: list_all_iff)
  have "initializer (fst (rewriteWebGPU 8 ex_graph)) =
       initializer ex_graph @
       (if \<exists>nd \<in> set (node ex_graph). opType nd = ''Softplus''
        then [\<lparr>dims = [], dataType = (if isFp16 ex_graph then 10 else 1),
               rawData = (if isFp16 ex_graph then [0x00, 0x3c] else [0x00, 0x00, 0x80, 0x3f]),
               tensor_name = ''__webgpu_const_one''\<rparr>]
        else [])"
    by (rule t[THEN conjunct2, THEN conjunct2, THEN conjunct1])
  with sp fp have "initializer (fst (rewriteWebGPU 8 ex_graph)) =
       initializer ex_graph @ [\<lparr>dims = [], dataType = 10, rawData = [0x00, 0x3c],
               tensor_name = ''__webgpu_const_one''\<rparr>]"
    by (simp only: if_True)
  then have c3: "map rawData (initializer (fst (rewriteWebGPU 8 ex_graph))) = [[0x00, 0x3c]]"
    by (simp add: ex_graph_def)
  have l: "(2 :: nat) < length (node ex_graph)" by (simp add: ex_graph_def)
  have o: "opType (node ex_graph ! 2) \<noteq> ''Softplus'' \<and> opType (node ex_graph ! 2) \<noteq> ''LogSoftmax''"
    by (simp add: ex_graph_def)
  have "\<forall>i < length (node ex_graph).
         opType (node ex_graph ! i) \<noteq> ''Softplus'' \<and> opType (node ex_graph ! i) \<noteq> ''LogSoftmax'' \<longrightarrow>
         replacement webgpu_profile (node ex_graph) i = [node ex_graph ! i]
         \<and> replacement webnn_profile (node ex_graph) i = [node ex_graph ! i]"
    by (rule t[THEN conjunct2, THEN conjunct2, THEN conjunct2, THEN conjunct2, THEN conjunct2, THEN conjunct2, THEN conjunct2, THEN conjunct2, THEN conjunct1])
  with l o have c4: "replacement webgpu_profile (node ex_graph) 2 = [node ex_graph ! 2]" by blast
  from sp fp c1 c2 c3 l c4 show ?thesis by (intro conjI)
qed

text \<open>
  Claim C1 as stated (every softplus and every log-softmax node of the model is removed)
  fails on a model with such nodes below its node list: the graph \<open>ex_branch_graph\<close>, whose
  \<open>If\<close> node holds a softplus in one branch and a log-softmax in the other, goes through
  both converters unchanged, nothing is reported as changed and no constant is added; the
  model \<open>ex_branch_model\<close> also keeps the softplus node of its local function.
\<close>

theorem nested_softplus_survives_counterexample:
  "rewriteWebGPU 8 ex_branch_graph = (ex_branch_graph, [])
   \<and> rewriteWebNN 1 19 ex_branch_graph = (ex_branch_graph, [])
   \<and> graph_opTypes ex_branch_graph = [''If'', ''Softplus'', ''LogSoftmax'']
   \<and> initializer ex_branch_graph = []
   \<and> model_opTypes (ex_branch_model\<lparr>graph := Some (fst (rewriteWebGPU 8 ex_branch_graph))\<rparr>)
       = [''If'', ''Softplus'', ''LogSoftmax'', ''Softplus'']"
proof -
  have a: "rewriteWebGPU 8 ex_branch_graph = (ex_branch_graph, [])"
    by (simp add: rewriteWebGPU_def staticPassGPU_def decomposePass_def decomposeNode_def
        loop_init_def ex_branch_graph_def Let_def)
  have b: "rewriteWebNN 1 19 ex_branch_graph = (ex_branch_graph, [])"
    by (simp add: rewriteWebNN_def staticPassNN_def decomposePass_def decomposeNode_def
        loop_init_def ex_branch_graph_def Let_def)
  have c: "graph_opTypes ex_branch_graph = [''If'', ''Softplus'', ''LogSoftmax'']"
    by (simp add: graph_opTypes_def node_opTypes_def attr_opTypes_def ex_branch_graph_def)
  have d: "initializer ex_branch_graph = []"
    by (simp add: ex_branch_graph_def)
  have e: "model_opTypes (ex_branch_model\<lparr>graph := Some (fst (rewriteWebGPU 8 ex_branch_graph))\<rparr>)
       = [''If'', ''Softplus'', ''LogSoftmax'', ''Softplus'']"
    unfolding a by (simp add: model_opTypes_def c ex_branch_model_def node_opTypes_def)
  from a b c d e show ?thesis by (intro conjI)
qed

subsection \<open>Parse failures\<close>

text \<open>
  Claim C2 (as amended). For every input buffer that fails to decode, and for every buffer
  that decodes to a model without a graph, both converters raise an error (the decoding error,
  respectively \<open>Model has no graph\<close>) and return no conversion result. The caller that
  loads the engine catches the error and goes on with the original bytes, not marked as
  converted.
\<close>

theorem converters_raise_on_parse_failure:
  "(dec buf = None \<longrightarrow>
      convertModelForWebGPU dec enc buf optBatch = Inl DecodeError \<and>
      convertModelForWebNN dec enc buf optBatch optBoard = Inl DecodeError)
   \<and> ((\<exists>m. dec buf = Some m \<and> graph m = None) \<longrightarrow>
      convertModelForWebGPU dec enc buf optBatch = Inl NoGraph \<and>
      convertModelForWebNN dec enc buf optBatch optBoard = Inl NoGraph)
   \<and> (dec buf = None \<or> (\<exists>m. dec buf = Some m \<and> graph m = None) \<longrightarrow>
      autoConvertWebGPU dec enc buf bs = (buf, False) \<and>
      autoConvertWebNN dec enc buf boardSize = (buf, False))"
  by (auto simp: convertModelForWebGPU_def convertModelForWebNN_def autoConvertWebGPU_def
      autoConvertWebNN_def Let_def)

text \<open>
  The same at a decoder that rejects the one-byte buffer \<open>08\<close> and at a decoder that
  reads the empty buffer as a model without graph.
\<close>

theorem converters_raise_on_parse_failure_witness:
  "(\<lambda>b. if b = [0x08] then None else Some \<lparr>graph = None, trainingInfo = [], model_functions = []\<rparr>) [0x08 :: 8 word] = None
   \<and> convertModelForWebGPU (\<lambda>b. if b = [0x08] then None else Some \<lparr>graph = None, trainingInfo = [], model_functions = []\<rparr>)
         (\<lambda>m. Some []) [0x08] None = Inl DecodeError
   \<and> convertModelForWebNN (\<lambda>b. if b = [0x08] then None else Some \<lparr>graph = None, trainingInfo = [], model_functions = []\<rparr>)
         (\<lambda>m. Some []) [] None None = Inl NoGraph
   \<and> autoConvertWebGPU (\<lambda>b. if b = [0x08] then None else Some \<lparr>graph = None, trainingInfo = [], model_functions = []\<rparr>)
         (\<lambda>m. Some []) [0x08] 8 = ([0x08], False)"
  using converters_raise_on_parse_failure[of "\<lambda>b. if b = [0x08] then None else Some \<lparr>graph = None, trainingInfo = [], model_functions = []\<rparr>"
          "[0x08]" "\<lambda>m. Some []" None None 8 19]
        converters_raise_on_parse_failure[of "\<lambda>b. if b = [0x08] then None else Some \<lparr>graph = None, trainingInfo = [], model_functions = []\<rparr>"
          "[]" "\<lambda>m. Some []" None None 8 19]
  by simp

text \<open>
  Claim C2 as stated fails: on a buffer that does not decode the rewriter returns no result
  at all, in particular none that holds the original bytes and \<open>wasConverted = false\<close>; the
  same on a model without graph.
\<close>

theorem converter_returns_original_counterexample:
  "\<not> (\<exists>r. convertModelForWebGPU (\<lambda>b. None) (\<lambda>m. Some []) [0x08] None = Inr r
            \<and> buffer r = [0x08] \<and> \<not> wasConverted r)
   \<and> \<not> (\<exists>r. convertModelForWebNN (\<lambda>b. Some \<lparr>graph = None, trainingInfo = [], model_functions = []\<rparr>) (\<lambda>m. Some []) [0x08] None None = Inr r
            \<and> buffer r = [0x08] \<and> \<not> wasConverted r)"
  by (simp add: convertModelForWebGPU_def convertModelForWebNN_def)

subsection \<open>Static dimensions, coprocessor profile\<close>







section \<open>Properties of the inference engine\<close>

subsection \<open>Root visit count of the search\<close>

lemma js_succ_funpow: "a + n \<le> 2 ^ 53 \<Longrightarrow> (js_succ ^^ n) a = a + n"
  by (induction n) (simp_all add: js_succ_def)

lemma backup_N:
  assumes "\<And>n. node_N (atLeaf n) = node_N n"
  shows "node_N (backup v atLeaf ks nd) = js_succ (node_N nd)"
  using assms by (cases ks) (simp_all add: bump_def with_children_def)

lemma expandNode_N: "node_N (expandNode n ev board pla sz) = node_N n"
  by (simp add: expandNode_def)

lemma mctsVisit_N:
  assumes "mctsVisit evalf makeMove sz komi rootBoard nextPla history (rt, re) = Inr (rt', re')"
  shows "node_N rt' = js_succ (node_N rt)"
proof -
  let ?leaf = "selectPath makeMove sz rt rootBoard nextPla history"
  show ?thesis
  proof (cases "node_expanded (leaf_node ?leaf)")
    case True
    with assms have "rt' = backup (if node_N (leaf_node ?leaf) > 0
                     then node_W (leaf_node ?leaf) / real (node_N (leaf_node ?leaf)) else 0.5)
                  (\<lambda>n. n) (leaf_keys ?leaf) rt"
      by (simp add: mctsVisit_def Let_def del: backup.simps)
    then show ?thesis by (simp add: backup_N del: backup.simps)
  next
    case False
    with assms obtain leafEval where
      "rt' = backup (winRate leafEval)
               (\<lambda>n. expandNode n leafEval (leaf_board ?leaf) (leaf_pla ?leaf) sz) (leaf_keys ?leaf) rt"
      by (auto simp: mctsVisit_def Let_def simp del: backup.simps split: sum.splits)
    then show ?thesis by (simp add: backup_N expandNode_N del: backup.simps)
  qed
qed

lemma mctsIter_N:
  assumes "mctsIter evalf makeMove sz komi rootBoard nextPla history n (rt, re) = Inr (rt', re')"
  shows "node_N rt' = (js_succ ^^ n) (node_N rt)"
  using assms
proof (induction n arbitrary: rt re)
  case 0
  then show ?case by simp
next
  case (Suc n)
  show ?case
  proof (cases "mctsVisit evalf makeMove sz komi rootBoard nextPla history (rt, re)")
    case (Inl e)
    with Suc.prems show ?thesis by simp
  next
    case (Inr st1)
    obtain rt1 re1 where st1: "st1 = (rt1, re1)" by (cases st1)
    from Suc.prems Inr st1 have
      l: "mctsIter evalf makeMove sz komi rootBoard nextPla history n (rt1, re1) = Inr (rt', re')"
      by simp
    from Inr st1 have "node_N rt1 = js_succ (node_N rt)" by (simp add: mctsVisit_N)
    with Suc.IH[OF l] show ?thesis by (simp add: funpow_swap1)
  qed
qed

lemma mctsVisit_total:
  assumes "\<forall>b p k h s. \<exists>r. evalf b p k h s = Inr r"
  shows "\<exists>st'. mctsVisit evalf makeMove sz komi rootBoard nextPla history st = Inr st'"
proof -
  obtain rt re where st: "st = (rt, re)" by (cases st)
  let ?leaf = "selectPath makeMove sz rt rootBoard nextPla history"
  from assms obtain r where "evalf (leaf_board ?leaf) (leaf_pla ?leaf) komi (leaf_hist ?leaf) sz = Inr r"
    by blast
  then show ?thesis by (simp add: mctsVisit_def st Let_def del: backup.simps)
qed

lemma mctsIter_total:
  assumes "\<forall>b p k h s. \<exists>r. evalf b p k h s = Inr r"
  shows "\<exists>st'. mctsIter evalf makeMove sz komi rootBoard nextPla history n st = Inr st'"
proof (induction n arbitrary: st)
  case 0
  then show ?case by simp
next
  case (Suc n)
  from mctsVisit_total[OF assms, of makeMove sz komi rootBoard nextPla history st] obtain st1 where
    "mctsVisit evalf makeMove sz komi rootBoard nextPla history st = Inr st1" by blast
  with Suc.IH[of st1] show ?case by simp
qed

text \<open>
  With a finite \<open>numVisits\<close> up to \<open>2^53\<close> the loop from the counter value \<open>v\<close> makes the
  iterations that are left up to the least integer not below \<open>numVisits\<close>; with a larger or
  an infinite one the counter never reaches it, and the loop returns only through a failed
  evaluation.
\<close>

lemma js_lt_Fin: "js_lt (Fin a) (Fin b) = (a < b)"
  by (simp add: js_lt_def)

lemma mctsLoop_Fin:
  assumes b: "x \<le> 2 ^ 53"
  shows "mctsLoop evalf makeMove sz komi rootBoard nextPla history (Fin x) v st
     = Some (mctsIter evalf makeMove sz komi rootBoard nextPla history (nat (\<lceil>x\<rceil> - int v)) st)"
proof (induction "nat (\<lceil>x\<rceil> - int v)" arbitrary: v st)
  case 0
  then have "\<not> real v < x" by (simp add: not_less ceiling_le_iff)
  with 0 show ?case by (subst mctsLoop.simps) (simp add: js_lt_Fin)
next
  case (Suc n)
  from Suc(2) have "int v < \<lceil>x\<rceil>" by linarith
  then have lt: "real v < x" using less_ceiling_iff[of "int v" x] by simp
  with b have "real v < 2 ^ 53" by linarith
  then have "v < 2 ^ 53" by simp
  then have s: "js_succ v = Suc v" by (simp add: js_succ_def)
  from Suc(2) have n: "n = nat (\<lceil>x\<rceil> - int (Suc v))" by linarith
  show ?case
  proof (cases "mctsVisit evalf makeMove sz komi rootBoard nextPla history st")
    case (Inl e)
    with lt Suc(2)[symmetric] show ?thesis by (subst mctsLoop.simps) (simp add: js_lt_Fin)
  next
    case (Inr st')
    have "mctsLoop evalf makeMove sz komi rootBoard nextPla history (Fin x) v st
        = mctsLoop evalf makeMove sz komi rootBoard nextPla history (Fin x) (Suc v) st'"
      by (subst mctsLoop.simps) (simp add: js_lt_Fin lt Inr s)
    also have "\<dots> = Some (mctsIter evalf makeMove sz komi rootBoard nextPla history
                           (nat (\<lceil>x\<rceil> - int (Suc v))) st')"
      by (rule Suc(1)[OF n])
    also have "mctsIter evalf makeMove sz komi rootBoard nextPla history (nat (\<lceil>x\<rceil> - int (Suc v))) st'
        = mctsIter evalf makeMove sz komi rootBoard nextPla history (Suc n) st"
      unfolding n[symmetric] by (simp add: Inr)
    finally show ?thesis unfolding Suc(2)[symmetric] .
  qed
qed

lemma mctsLoop_beyond:
  assumes "mctsLoop evalf makeMove sz komi rootBoard nextPla history numVisits v st = Some y"
  shows "(numVisits = PosInf \<or> (\<exists>x. numVisits = Fin x \<and> 2 ^ 53 < x)) \<and> v \<le> 2 ^ 53
           \<longrightarrow> (\<exists>e. y = Inl e)"
proof (rule mctsLoop.raw_induct[where P = "\<lambda>evalf makeMove sz komi rootBoard nextPla history numVisits v st y.
          (numVisits = PosInf \<or> (\<exists>x. numVisits = Fin x \<and> 2 ^ 53 < x)) \<and> v \<le> 2 ^ 53
           \<longrightarrow> (\<exists>e. y = Inl e)", OF _ assms])
  fix loop evalf makeMove sz komi rootBoard nextPla history numVisits and v :: nat and st y
  assume ih: "\<And>evalf makeMove sz komi rootBoard nextPla history numVisits v st y.
          loop evalf makeMove sz komi rootBoard nextPla history numVisits v st = Some y \<Longrightarrow>
          (numVisits = PosInf \<or> (\<exists>x. numVisits = Fin x \<and> 2 ^ 53 < x)) \<and> v \<le> 2 ^ 53
           \<longrightarrow> (\<exists>e. y = Inl e)"
    and eq: "(if js_lt (Fin (real v)) numVisits
      then case mctsVisit evalf makeMove sz komi rootBoard nextPla history st of
           Inl e \<Rightarrow> Some (Inl e)
           | Inr st' \<Rightarrow> loop evalf makeMove sz komi rootBoard nextPla history numVisits (js_succ v) st'
      else Some (Inr st)) = Some y"
  show "(numVisits = PosInf \<or> (\<exists>x. numVisits = Fin x \<and> 2 ^ 53 < x)) \<and> v \<le> 2 ^ 53
           \<longrightarrow> (\<exists>e. y = Inl e)"
  proof
    assume p: "(numVisits = PosInf \<or> (\<exists>x. numVisits = Fin x \<and> 2 ^ 53 < x)) \<and> v \<le> 2 ^ 53"
    then have vb: "v \<le> 2 ^ 53" and nb: "numVisits = PosInf \<or> (\<exists>x. numVisits = Fin x \<and> 2 ^ 53 < x)"
      by simp_all
    from vb have rv: "real v \<le> 2 ^ 53" by simp
    from nb have lt: "js_lt (Fin (real v)) numVisits"
    proof
      assume "numVisits = PosInf"
      then show ?thesis by (simp add: js_lt_def)
    next
      assume "\<exists>x. numVisits = Fin x \<and> 2 ^ 53 < x"
      then obtain x where "numVisits = Fin x" "2 ^ 53 < x" by blast
      with rv show ?thesis by (simp add: js_lt_Fin)
    qed
    from vb have sb: "js_succ v \<le> 2 ^ 53" by (simp add: js_succ_def)
    show "\<exists>e. y = Inl e"
    proof (cases "mctsVisit evalf makeMove sz komi rootBoard nextPla history st")
      case (Inl e)
      with eq lt show ?thesis by auto
    next
      case (Inr st')
      with eq lt have "loop evalf makeMove sz komi rootBoard nextPla history numVisits (js_succ v) st' = Some y"
        by simp
      from ih[OF this] nb sb show ?thesis by blast
    qed
  qed
qed

lemma mctsLoop_no_error:
  assumes tot: "\<forall>b p k h s. \<exists>r. evalf b p k h s = Inr r"
  shows "mctsLoop evalf makeMove sz komi rootBoard nextPla history numVisits v st \<noteq> Some (Inl e)"
proof
  assume a: "mctsLoop evalf makeMove sz komi rootBoard nextPla history numVisits v st = Some (Inl e)"
  have "(\<exists>e'. (Inl e :: engine_error + MCTSNode \<times> AnalysisResult option) = Inl e')
          \<longrightarrow> \<not> (\<forall>b p k h s. \<exists>r. evalf b p k h s = Inr r)"
  proof (rule mctsLoop.raw_induct[where P = "\<lambda>evalf makeMove sz komi rootBoard nextPla history numVisits v st y.
        (\<exists>e. y = Inl e) \<longrightarrow> \<not> (\<forall>b p k h s. \<exists>r. evalf b p k h s = Inr r)", OF _ a])
    fix loop evalf makeMove sz komi rootBoard nextPla history numVisits and v :: nat and st y
    assume ih: "\<And>evalf makeMove sz komi rootBoard nextPla history numVisits v st y.
        loop evalf makeMove sz komi rootBoard nextPla history numVisits v st = Some y \<Longrightarrow>
        (\<exists>e. y = Inl e) \<longrightarrow> \<not> (\<forall>b p k h s. \<exists>r. evalf b p k h s = Inr r)"
      and eq: "(if js_lt (Fin (real v)) numVisits
        then case mctsVisit evalf makeMove sz komi rootBoard nextPla history st of
             Inl e \<Rightarrow> Some (Inl e)
             | Inr st' \<Rightarrow> loop evalf makeMove sz komi rootBoard nextPla history numVisits (js_succ v) st'
        else Some (Inr st)) = Some y"
    show "(\<exists>e. y = Inl e) \<longrightarrow> \<not> (\<forall>b p k h s. \<exists>r. evalf b p k h s = Inr r)"
    proof (intro impI notI)
      assume y: "\<exists>e. y = Inl e" and tot: "\<forall>b p k h s. \<exists>r. evalf b p k h s = Inr r"
      from mctsVisit_total[OF tot, of makeMove sz komi rootBoard nextPla history st] obtain st' where
        v: "mctsVisit evalf makeMove sz komi rootBoard nextPla history st = Inr st'" by blast
      from y eq have lt: "js_lt (Fin (real v)) numVisits" by (auto split: if_splits)
      with eq v have "loop evalf makeMove sz komi rootBoard nextPla history numVisits (js_succ v) st' = Some y"
        by simp
      from ih[OF this] y tot show False by blast
    qed
  qed
  with tot show False by blast
qed

lemma mctsLoop_beyond_total:
  assumes "\<forall>b p k h s. \<exists>r. evalf b p k h s = Inr r"
    and "numVisits = PosInf \<or> (\<exists>x. numVisits = Fin x \<and> 2 ^ 53 < x)" and "v \<le> 2 ^ 53"
  shows "mctsLoop evalf makeMove sz komi rootBoard nextPla history numVisits v st = None"
proof (cases "mctsLoop evalf makeMove sz komi rootBoard nextPla history numVisits v st")
  case None
  then show ?thesis .
next
  case (Some y)
  from mctsLoop_beyond[OF Some] assms(2,3) obtain e where "y = Inl e" by blast
  with Some mctsLoop_no_error[OF assms(1)] show ?thesis by blast
qed

lemma runMCTS_Fin:
  assumes "float32ArrayFits mem (22 * sz * sz)" "float32ArrayFits mem 19" "x \<le> 2 ^ 53"
  shows "runMCTS mem evalf makeMove rootBoard nextPla komi history (Fin x) sz =
     Some (case mctsIter evalf makeMove sz komi rootBoard nextPla history (nat \<lceil>x\<rceil>)
                  (MCTSNode 0 0 1 None False, None) of
             Inl e \<Rightarrow> Inl e
           | Inr (rt, rootEval) \<Rightarrow>
               (case (case rootEval of
                        Some r \<Rightarrow> Inr r
                      | None \<Rightarrow> evalf rootBoard nextPla komi history sz) of
                  Inl e \<Rightarrow> Inl e
                | Inr rootEval' \<Rightarrow>
                    Inr \<lparr>moveSuggestions = mctsSuggestions rt,
                         winRate = (if node_N rt > 0 then node_W rt / real (node_N rt) else winRate rootEval'),
                         scoreLead = scoreLead rootEval',
                         currentTurn = (if nextPla = 1 then ''B'' else ''W''),
                         ownership = ownership rootEval',
                         visits = Some (node_N rt)\<rparr>))"
  using assms(1,2)
  by (simp add: runMCTS_def mctsLoop_Fin[OF assms(3)] split: sum.splits prod.splits)

lemma runMCTS_fits:
  assumes "runMCTS mem evalf makeMove rootBoard nextPla komi history numVisits sz = Some (Inr res)"
  shows "float32ArrayFits mem (22 * sz * sz) \<and> float32ArrayFits mem 19"
  using assms by (auto simp: runMCTS_def split: if_splits)

lemma runMCTS_within:
  assumes "runMCTS mem evalf makeMove rootBoard nextPla komi history numVisits sz = Some (Inr res)"
  shows "\<not> (numVisits = PosInf \<or> (\<exists>x. numVisits = Fin x \<and> 2 ^ 53 < x))"
proof
  assume b: "numVisits = PosInf \<or> (\<exists>x. numVisits = Fin x \<and> 2 ^ 53 < x)"
  from assms runMCTS_fits[OF assms] obtain y where
    y: "mctsLoop evalf makeMove sz komi rootBoard nextPla history numVisits 0 (MCTSNode 0 0 1 None False, None) = Some y"
    and ny: "\<not> (\<exists>e. y = Inl e)"
    by (auto simp: runMCTS_def split: option.splits sum.splits)
  have z: "(0 :: nat) \<le> 2 ^ 53" by simp
  from mctsLoop_beyond[OF y, THEN mp, OF conjI[OF b z]] ny show False by blast
qed

lemma runMCTS_finite:
  assumes "runMCTS mem evalf makeMove rootBoard nextPla komi history numVisits sz = Some (Inr res)"
    and "js_lt (Fin 1) numVisits"
  shows "\<exists>x. numVisits = Fin x \<and> 1 < x \<and> x \<le> 2 ^ 53"
proof (cases numVisits)
  case (Fin x)
  with runMCTS_within[OF assms(1)] have "x \<le> 2 ^ 53" by auto
  with Fin assms(2) show ?thesis by (simp add: js_lt_Fin)
next
  case PosInf
  with runMCTS_within[OF assms(1)] show ?thesis by simp
next
  case NegInf
  with assms(2) show ?thesis by (simp add: js_lt_def)
next
  case NaN
  with assms(2) show ?thesis by (simp add: js_lt_def)
qed

lemma runMCTS_result:
  assumes "runMCTS mem evalf makeMove rootBoard nextPla komi history (Fin x) sz = Some (Inr res)"
  shows "\<exists>rt re. mctsLoop evalf makeMove sz komi rootBoard nextPla history (Fin x) 0
                    (MCTSNode 0 0 1 None False, None) = Some (Inr (rt, re))
           \<and> visits res = Some (node_N rt) \<and> moveSuggestions res = mctsSuggestions rt
           \<and> node_N rt = nat \<lceil>x\<rceil> \<and> x \<le> 2 ^ 53
           \<and> currentTurn res = (if nextPla = 1 then ''B'' else ''W'')"
proof -
  note f = runMCTS_fits[OF assms]
  from runMCTS_within[OF assms] have b: "x \<le> 2 ^ 53" by auto
  note r = assms[unfolded runMCTS_Fin[OF f[THEN conjunct1] f[THEN conjunct2] b]]
  from b have "\<lceil>x\<rceil> \<le> 2 ^ 53" by (simp add: ceiling_le_iff)
  then have cb: "0 + nat \<lceil>x\<rceil> \<le> 2 ^ 53" by (simp add: nat_le_iff)
  show ?thesis
  proof (cases "mctsIter evalf makeMove sz komi rootBoard nextPla history (nat \<lceil>x\<rceil>) (MCTSNode 0 0 1 None False, None)")
    case (Inl e)
    with r show ?thesis by simp
  next
    case (Inr st)
    obtain rt re where st: "st = (rt, re)" by (cases st)
    from Inr st mctsIter_N[of evalf makeMove sz komi rootBoard nextPla history "nat \<lceil>x\<rceil>" "MCTSNode 0 0 1 None False" None rt re]
    have "node_N rt = (js_succ ^^ nat \<lceil>x\<rceil>) 0" by simp
    with js_succ_funpow[OF cb] have n: "node_N rt = nat \<lceil>x\<rceil>" by simp
    from Inr st have l: "mctsLoop evalf makeMove sz komi rootBoard nextPla history (Fin x) 0
                    (MCTSNode 0 0 1 None False, None) = Some (Inr (rt, re))"
      by (simp add: mctsLoop_Fin[OF b])
    show ?thesis
    proof (cases "case re of Some r \<Rightarrow> Inr r | None \<Rightarrow> evalf rootBoard nextPla komi history sz")
      case (Inl e)
      with r Inr st show ?thesis by simp
    next
      case Inr2: (Inr r')
      with r Inr st have "res = \<lparr>moveSuggestions = mctsSuggestions rt,
                      winRate = (if node_N rt > 0 then node_W rt / real (node_N rt) else winRate r'),
                      scoreLead = scoreLead r',
                      currentTurn = (if nextPla = 1 then ''B'' else ''W''),
                      ownership = ownership r',
                      visits = Some (node_N rt)\<rparr>"
        by simp
      with n l b show ?thesis by simp
    qed
  qed
qed

lemma runMCTS_total:
  assumes "\<forall>b p k h s. \<exists>r. evalf b p k h s = Inr r"
    and "float32ArrayFits mem (22 * sz * sz)" "float32ArrayFits mem 19" "x \<le> 2 ^ 53"
  shows "\<exists>res. runMCTS mem evalf makeMove rootBoard nextPla komi history (Fin x) sz = Some (Inr res)"
proof -
  from mctsIter_total[OF assms(1), of makeMove sz komi rootBoard nextPla history "nat \<lceil>x\<rceil>" "(MCTSNode 0 0 1 None False, None)"]
  obtain st where
    l: "mctsIter evalf makeMove sz komi rootBoard nextPla history (nat \<lceil>x\<rceil>) (MCTSNode 0 0 1 None False, None) = Inr st"
    by blast
  obtain rt re where st: "st = (rt, re)" by (cases st)
  from assms(1) obtain r where "evalf rootBoard nextPla komi history sz = Inr r" by blast
  with l st show ?thesis
    unfolding runMCTS_Fin[OF assms(2,3,4)] by (cases re) simp_all
qed

lemma runMCTS_diverges:
  assumes "\<forall>b p k h s. \<exists>r. evalf b p k h s = Inr r"
    and "float32ArrayFits mem (22 * sz * sz)" "float32ArrayFits mem 19"
    and "numVisits = PosInf \<or> (\<exists>x. numVisits = Fin x \<and> 2 ^ 53 < x)"
  shows "runMCTS mem evalf makeMove rootBoard nextPla komi history numVisits sz = None"
  using assms(2,3) mctsLoop_beyond_total[OF assms(1,4), of 0]
  by (simp add: runMCTS_def)

lemma analyzePosition_visits:
  assumes "1 < x" "opt_numVisits options = Some (Fin x)"
    and "analyzePosition mem session run topMoves makeMove sm options = Some (Inr res)"
  shows "visits res = Some (nat \<lceil>x\<rceil>)"
proof -
  from assms obtain ev b p k h s where
    "runMCTS mem ev makeMove b p k h (Fin x) s = Some (Inr res)"
    by (auto simp: analyzePosition_def Let_def js_lt_Fin split: if_splits)
  from runMCTS_result[OF this] show ?thesis by auto
qed

text \<open>
  Claim C4 (as amended). For every starting position, komi and history, every evaluator and
  board library, and every finite \<open>numVisits > 1\<close>: when the search completes, the visit
  count it reports is the \<open>N\<close> of the root after the loop, and that is the least integer not
  below \<open>numVisits\<close>; it is \<open>numVisits\<close> exactly when \<open>numVisits\<close> is an integer. The same holds
  through \<open>analyzePosition\<close>. Every iteration that completes adds exactly one to the root's
  \<open>N\<close> (as long as the count is below \<open>2^53\<close>), whatever its selection path was (also one cut
  short by a move the board library rejected or by two passes). The search completes
  whenever \<open>numVisits\<close> is at most \<open>2^53\<close>, the two scratch buffers can be allocated and no
  evaluation fails; with \<open>numVisits\<close> infinite or above \<open>2^53\<close> it does not complete then.
\<close>

theorem mcts_root_visits_ceiling_of_numVisits:
  "(1 < x \<and> runMCTS mem evalf makeMove rootBoard nextPla komi history (Fin x) sz = Some (Inr res)
      \<longrightarrow> (\<exists>rt re. mctsLoop evalf makeMove sz komi rootBoard nextPla history (Fin x) 0
                       (MCTSNode 0 0 1 None False, None) = Some (Inr (rt, re))
              \<and> visits res = Some (node_N rt) \<and> moveSuggestions res = mctsSuggestions rt
              \<and> int (node_N rt) = \<lceil>x\<rceil>
              \<and> (real (node_N rt) = x) = (x \<in> \<int>)))
   \<and> (1 < x \<and> opt_numVisits options = Some (Fin x)
       \<and> analyzePosition mem session run topMoves makeMove sm options = Some (Inr res')
      \<longrightarrow> visits res' = Some (nat \<lceil>x\<rceil>))
   \<and> (mctsVisit evalf makeMove sz komi rootBoard nextPla history (rt0, re0) = Inr (rt', re')
      \<longrightarrow> node_N rt' = js_succ (node_N rt0)
          \<and> (node_N rt0 < 2 ^ 53 \<longrightarrow> node_N rt' = node_N rt0 + 1))
   \<and> ((\<forall>b p k h s. \<exists>r. evalf b p k h s = Inr r)
        \<and> float32ArrayFits mem (22 * sz * sz) \<and> float32ArrayFits mem 19
      \<longrightarrow> (x \<le> 2 ^ 53 \<longrightarrow>
             (\<exists>r. runMCTS mem evalf makeMove rootBoard nextPla komi history (Fin x) sz = Some (Inr r)))
          \<and> (2 ^ 53 < x \<longrightarrow>
             runMCTS mem evalf makeMove rootBoard nextPla komi history (Fin x) sz = None)
          \<and> runMCTS mem evalf makeMove rootBoard nextPla komi history PosInf sz = None)"
proof (intro conjI impI)
  assume a: "1 < x \<and> runMCTS mem evalf makeMove rootBoard nextPla komi history (Fin x) sz = Some (Inr res)"
  then have x: "1 < x" and r: "runMCTS mem evalf makeMove rootBoard nextPla komi history (Fin x) sz = Some (Inr res)"
    by simp_all
  from runMCTS_result[OF r] obtain rt re where
    l: "mctsLoop evalf makeMove sz komi rootBoard nextPla history (Fin x) 0
                       (MCTSNode 0 0 1 None False, None) = Some (Inr (rt, re))"
    and v: "visits res = Some (node_N rt)" and m: "moveSuggestions res = mctsSuggestions rt"
    and n: "node_N rt = nat \<lceil>x\<rceil>" by blast
  from x have "0 < \<lceil>x\<rceil>" by linarith
  with n have c: "int (node_N rt) = \<lceil>x\<rceil>" by simp
  have "(real (node_N rt) = x) = (x \<in> \<int>)"
  proof
    assume "real (node_N rt) = x"
    then have "x = of_int (int (node_N rt))" by simp
    then show "x \<in> \<int>" by (simp only: Ints_of_int)
  next
    assume "x \<in> \<int>"
    then have "of_int \<lceil>x\<rceil> = x" by (simp add: Ints_def)
    with c show "real (node_N rt) = x" by (metis of_int_of_nat_eq)
  qed
  with l v m c show "\<exists>rt re. mctsLoop evalf makeMove sz komi rootBoard nextPla history (Fin x) 0
                       (MCTSNode 0 0 1 None False, None) = Some (Inr (rt, re))
              \<and> visits res = Some (node_N rt) \<and> moveSuggestions res = mctsSuggestions rt
              \<and> int (node_N rt) = \<lceil>x\<rceil>
              \<and> (real (node_N rt) = x) = (x \<in> \<int>)"
    by blast
next
  assume "1 < x \<and> opt_numVisits options = Some (Fin x)
       \<and> analyzePosition mem session run topMoves makeMove sm options = Some (Inr res')"
  then show "visits res' = Some (nat \<lceil>x\<rceil>)" using analyzePosition_visits by blast
next
  assume v: "mctsVisit evalf makeMove sz komi rootBoard nextPla history (rt0, re0) = Inr (rt', re')"
  then show s: "node_N rt' = js_succ (node_N rt0)" by (rule mctsVisit_N)
  assume "node_N rt0 < 2 ^ 53"
  with mctsVisit_N[OF v] show "node_N rt' = node_N rt0 + 1" by (simp add: js_succ_def)
next
  assume a: "(\<forall>b p k h s. \<exists>r. evalf b p k h s = Inr r)
        \<and> float32ArrayFits mem (22 * sz * sz) \<and> float32ArrayFits mem 19"
  then have e: "\<forall>b p k h s. \<exists>r. evalf b p k h s = Inr r"
    and f: "float32ArrayFits mem (22 * sz * sz)" "float32ArrayFits mem 19" by simp_all
  show "runMCTS mem evalf makeMove rootBoard nextPla komi history PosInf sz = None"
    by (rule runMCTS_diverges[OF e f]) simp
  {
    assume "x \<le> 2 ^ 53"
    then show "\<exists>r. runMCTS mem evalf makeMove rootBoard nextPla komi history (Fin x) sz = Some (Inr r)"
      by (rule runMCTS_total[OF e f])
  next
    assume "2 ^ 53 < x"
    then show "runMCTS mem evalf makeMove rootBoard nextPla komi history (Fin x) sz = None"
      by (intro runMCTS_diverges[OF e f]) simp
  }
qed

text \<open>
  The same at three visits from \<open>ex_board\<close> with the evaluator \<open>ex_eval\<close>, which never
  fails, a board library that rejects every move, and room for the buffers.
\<close>

theorem mcts_root_visits_ceiling_of_numVisits_witness:
  "(1 :: real) < 3 \<and> (3 :: real) \<le> 2 ^ 53
   \<and> float32ArrayFits 1000 (22 * 2 * 2) \<and> float32ArrayFits 1000 19
   \<and> (\<exists>res. runMCTS 1000 ex_eval ex_mover ex_board 1 (15 / 2) [] (Fin 3) 2 = Some (Inr res)
          \<and> visits res = Some 3)"
proof -
  note t = mcts_root_visits_ceiling_of_numVisits[where x = 3 and mem = 1000 and evalf = ex_eval
      and makeMove = ex_mover and rootBoard = ex_board and nextPla = 1 and komi = "15 / 2"
      and history = "[]" and sz = 2]
  have e: "\<forall>b p k h s. \<exists>r. ex_eval b p k h s = Inr r" by (simp add: ex_eval_def)
  have f: "float32ArrayFits 1000 (22 * 2 * 2) \<and> float32ArrayFits 1000 19"
    by (simp add: float32ArrayFits_def)
  have x: "(1 :: real) < 3" and b: "(3 :: real) \<le> 2 ^ 53" by simp_all
  from t[THEN conjunct2, THEN conjunct2, THEN conjunct2, THEN mp, OF conjI[OF e f], THEN conjunct1,
         THEN mp, OF b]
  obtain r where r: "runMCTS 1000 ex_eval ex_mover ex_board 1 (15 / 2) [] (Fin 3) 2 = Some (Inr r)"
    by blast
  from t[where res = r, THEN conjunct1, THEN mp, OF conjI[OF x r]]
  obtain rt where v: "visits r = Some (node_N rt)" and n: "int (node_N rt) = \<lceil>3 :: real\<rceil>"
    by blast
  from n have "node_N rt = 3" by simp
  with v have "visits r = Some 3" by simp
  with r f x b show ?thesis by blast
qed

text \<open>
  Claim C4 as stated (the visit count equals exactly \<open>numVisits\<close>, for every \<open>numVisits > 1\<close>)
  fails when \<open>numVisits\<close> is not an integer: with \<open>numVisits = 2.5\<close> the loop runs for
  \<open>v = 0, 1, 2\<close> and the search reports three visits.
\<close>

theorem mcts_fractional_numVisits_counterexample:
  "(1 :: real) < 5 / 2
   \<and> (\<exists>res. runMCTS 1000 ex_eval ex_mover ex_board 1 (15 / 2) [] (Fin (5 / 2)) 2 = Some (Inr res)
          \<and> visits res = Some 3 \<and> real 3 \<noteq> 5 / 2)"
proof -
  have e: "\<forall>b p k h s. \<exists>r. ex_eval b p k h s = Inr r" by (simp add: ex_eval_def)
  have f: "float32ArrayFits 1000 (22 * 2 * 2)" "float32ArrayFits 1000 19"
    by (simp_all add: float32ArrayFits_def)
  have b: "(5 / 2 :: real) \<le> 2 ^ 53" by simp
  from runMCTS_total[OF e f b] obtain r where
    r: "runMCTS 1000 ex_eval ex_mover ex_board 1 (15 / 2) [] (Fin (5 / 2)) 2 = Some (Inr r)"
    by blast
  have c: "\<lceil>5 / 2 :: real\<rceil> = 3" by (simp add: ceiling_eq_iff)
  from runMCTS_result[OF r] obtain rt where "visits r = Some (node_N rt)" "node_N rt = nat \<lceil>5 / 2 :: real\<rceil>"
    by blast
  with c have "visits r = Some 3" by simp
  with r show ?thesis by simp
qed

subsection \<open>Ko filter\<close>







subsection \<open>Ownership decoding\<close>

lemma processResults_decodeItem:
  "processResults topMoves item own pla sz = decodeItem topMoves sz own 0 pla item"
  by (simp add: processResults_def processBatchResults_def)

text \<open>
  Claim C6 (as amended). In output decoding, when the ownership head is present, the
  entries of the batch item's slice are multiplied by the side to move (by \<open>+1\<close> when Black
  is the current player, by \<open>-1\<close> when White is), which brings them to Black's frame; without
  the head the result has no ownership. The values are not clamped: every entry of the result
  lies in \<open>[-1,1]\<close> exactly when every raw entry of the slice does.
\<close>

theorem ownership_sign_flip_without_clamp:
  "ownership (decodeItem topMoves sz (Some d) b pla item)
      = Some (map (\<lambda>v. v * real_of_int pla) (take (sz * sz) (drop (b * (sz * sz)) d)))
   \<and> ownership (decodeItem topMoves sz None b pla item) = None
   \<and> ownership (processResults topMoves item (Some d) pla sz)
      = Some (map (\<lambda>v. v * real_of_int pla) (take (sz * sz) d))
   \<and> (pla = 1 \<or> pla = - 1 \<longrightarrow>
        (\<forall>v \<in> set (the (ownership (decodeItem topMoves sz (Some d) b pla item))). - 1 \<le> v \<and> v \<le> 1)
         = (\<forall>v \<in> set (take (sz * sz) (drop (b * (sz * sz)) d)). - 1 \<le> v \<and> v \<le> 1))"
proof -
  have a: "ownership (decodeItem topMoves sz (Some d) b pla item)
      = Some (map (\<lambda>v. v * real_of_int pla) (take (sz * sz) (drop (b * (sz * sz)) d)))"
    by (simp add: decodeItem_def Let_def split: prod.splits)
  have n: "ownership (decodeItem topMoves sz None b pla item) = None"
    by (simp add: decodeItem_def Let_def split: prod.splits)
  have p: "ownership (processResults topMoves item (Some d) pla sz)
      = Some (map (\<lambda>v. v * real_of_int pla) (take (sz * sz) d))"
    by (simp add: processResults_decodeItem decodeItem_def Let_def split: prod.splits)
  have r: "pla = 1 \<or> pla = - 1 \<longrightarrow>
        (\<forall>v \<in> set (the (ownership (decodeItem topMoves sz (Some d) b pla item))). - 1 \<le> v \<and> v \<le> 1)
         = (\<forall>v \<in> set (take (sz * sz) (drop (b * (sz * sz)) d)). - 1 \<le> v \<and> v \<le> 1)"
    unfolding a by auto
  from a n p r show ?thesis by blast
qed

text \<open>The same for White to move on a one-point board with the raw value one half.\<close>

theorem ownership_sign_flip_without_clamp_witness:
  "((- 1 :: int) = 1 \<or> (- 1 :: int) = - 1)
   \<and> ownership (processResults (\<lambda>p s. []) ex_item (Some [1 / 2]) (- 1) 1) = Some [- (1 / 2)]
   \<and> (\<forall>v \<in> set (the (ownership (decodeItem (\<lambda>p s. []) 1 (Some [1 / 2]) 0 (- 1) ex_item))).
         - 1 \<le> v \<and> v \<le> 1) = True"
  using ownership_sign_flip_without_clamp[of "\<lambda>p s. []" 1 "[1 / 2]" 0 "- 1" ex_item]
  by simp

text \<open>
  Claim C6 as stated fails: nothing clamps. With Black to move, a raw ownership value 2
  comes out as 2, outside of \<open>[-1,1]\<close>.
\<close>

theorem ownership_not_clamped_counterexample:
  "ownership (processResults (\<lambda>p s. []) ex_item (Some [2]) 1 1) = Some [2]
   \<and> \<not> (\<forall>v \<in> set (the (ownership (processResults (\<lambda>p s. []) ex_item (Some [2]) 1 1))).
          - 1 \<le> v \<and> v \<le> 1)"
  by (simp add: processResults_decodeItem decodeItem_def ex_item_def)

subsection \<open>Side to move\<close>

lemma filterKoMoves_fields:
  "winRate (filterKoMoves r b p s) = winRate r \<and> scoreLead (filterKoMoves r b p s) = scoreLead r
   \<and> currentTurn (filterKoMoves r b p s) = currentTurn r \<and> ownership (filterKoMoves r b p s) = ownership r
   \<and> visits (filterKoMoves r b p s) = visits r"
  by (cases "getKoVertex b p s") (simp_all add: filterKoMoves_def Let_def)

lemma evaluateSingle_frame:
  assumes "evaluateSingle run topMoves board pla komi hist sz = Inr r"
  shows "\<exists>item own. run board pla komi hist = Inr (item, own)
           \<and> currentTurn r = (if pla = 1 then ''B'' else ''W'')
           \<and> winRate r = black_winRate pla item
           \<and> black_frame pla sz item own r"
proof (cases "run board pla komi hist")
  case (Inl e)
  with assms show ?thesis by (simp add: evaluateSingle_def)
next
  case (Inr io)
  obtain item own where io: "io = (item, own)" by (cases io)
  from assms Inr io have r: "r = filterKoMoves (processResults topMoves item own pla sz) board pla sz"
    by (simp add: evaluateSingle_def)
  have "currentTurn r = (if pla = 1 then ''B'' else ''W'')"
    by (simp add: r filterKoMoves_fields processResults_decodeItem decodeItem_def Let_def split: prod.splits)
  moreover have "winRate r = black_winRate pla item"
    by (simp add: r filterKoMoves_fields processResults_decodeItem decodeItem_def Let_def
        black_winRate_def split: prod.splits)
  moreover have "black_frame pla sz item own r"
    by (cases own)
       (simp_all add: r filterKoMoves_fields processResults_decodeItem decodeItem_def Let_def
        black_frame_def split: prod.splits)
  ultimately show ?thesis using Inr io by blast
qed

lemma selectPath_unexpanded:
  "\<not> node_expanded nd \<Longrightarrow>
     selectPath mk sz nd b p h = \<lparr>leaf_keys = [], leaf_node = nd, leaf_board = b, leaf_pla = p, leaf_hist = h\<rparr>"
  by (subst selectPath.simps) (simp add: selectStep_def split: option.splits)

lemma selectPath_keys_Nil:
  assumes "leaf_keys (selectPath mk sz nd b p h) = []"
  shows "leaf_node (selectPath mk sz nd b p h) = nd"
proof (cases "selectStep mk sz nd b p h")
  case None
  then show ?thesis by (subst selectPath.simps) simp
next
  case (Some x)
  obtain mv child b' p' h' where "x = (mv, child, b', p', h')" by (cases x) auto
  with Some have "leaf_keys (selectPath mk sz nd b p h) \<noteq> []"
    by (subst selectPath.simps) (simp add: Let_def)
  with assms show ?thesis by simp
qed

lemma backup_expanded:
  "node_expanded (backup v atLeaf ks nd) = (if ks = [] then node_expanded (atLeaf nd) else node_expanded nd)"
  by (cases ks) (simp_all add: bump_def with_children_def)

lemma mctsVisit_first:
  assumes "\<not> node_expanded rt"
    and "mctsVisit evalf makeMove sz komi rootBoard nextPla history (rt, re) = Inr (rt', re')"
  shows "node_expanded rt' \<and> (\<exists>e. evalf rootBoard nextPla komi history sz = Inr e \<and> re' = Some e)"
proof (cases "evalf rootBoard nextPla komi history sz")
  case (Inl e)
  with assms show ?thesis
    by (simp add: mctsVisit_def selectPath_unexpanded Let_def del: backup.simps)
next
  case (Inr e)
  with assms have "rt' = backup (winRate e) (\<lambda>n. expandNode n e rootBoard nextPla sz) [] rt" "re' = Some e"
    by (simp_all add: mctsVisit_def selectPath_unexpanded Let_def del: backup.simps)
  with Inr show ?thesis by (simp add: backup_expanded expandNode_def del: backup.simps)
qed

lemma mctsVisit_later:
  assumes "node_expanded rt"
    and "mctsVisit evalf makeMove sz komi rootBoard nextPla history (rt, re) = Inr (rt', re')"
  shows "node_expanded rt' \<and> re' = re"
proof -
  let ?leaf = "selectPath makeMove sz rt rootBoard nextPla history"
  show ?thesis
  proof (cases "node_expanded (leaf_node ?leaf)")
    case True
    with assms(2) have "rt' = backup (if node_N (leaf_node ?leaf) > 0
                     then node_W (leaf_node ?leaf) / real (node_N (leaf_node ?leaf)) else 0.5)
                  (\<lambda>n. n) (leaf_keys ?leaf) rt" "re' = re"
      by (simp_all add: mctsVisit_def Let_def del: backup.simps)
    with assms(1) show ?thesis by (simp add: backup_expanded del: backup.simps)
  next
    case False
    with assms(1) selectPath_keys_Nil[of makeMove sz rt rootBoard nextPla history]
    have k: "leaf_keys ?leaf \<noteq> []" by auto
    from False assms(2) obtain leafEval where
      "rt' = backup (winRate leafEval)
               (\<lambda>n. expandNode n leafEval (leaf_board ?leaf) (leaf_pla ?leaf) sz) (leaf_keys ?leaf) rt"
      "re' = (if leaf_keys ?leaf = [] then Some leafEval else re)"
      by (auto simp: mctsVisit_def Let_def simp del: backup.simps split: sum.splits)
    with k assms(1) show ?thesis by (simp add: backup_expanded del: backup.simps)
  qed
qed

lemma mctsIter_later:
  assumes "node_expanded rt"
    and "mctsIter evalf makeMove sz komi rootBoard nextPla history n (rt, re) = Inr (rt', re')"
  shows "re' = re"
  using assms
proof (induction n arbitrary: rt re)
  case 0
  then show ?case by simp
next
  case (Suc n)
  show ?case
  proof (cases "mctsVisit evalf makeMove sz komi rootBoard nextPla history (rt, re)")
    case (Inl e)
    with Suc.prems show ?thesis by simp
  next
    case (Inr st1)
    obtain rt1 re1 where st1: "st1 = (rt1, re1)" by (cases st1)
    from Inr st1 Suc.prems(1) mctsVisit_later[of rt evalf makeMove sz komi rootBoard nextPla history re rt1 re1]
    have e: "node_expanded rt1" "re1 = re" by simp_all
    from Suc.prems(2) Inr st1 have
      "mctsIter evalf makeMove sz komi rootBoard nextPla history n (rt1, re1) = Inr (rt', re')"
      by simp
    from Suc.IH[OF e(1) this] e(2) show ?thesis by simp
  qed
qed

lemma runMCTS_rootEval:
  assumes "runMCTS mem evalf makeMove rootBoard nextPla komi history (Fin x) sz = Some (Inr res)"
  shows "\<exists>e. evalf rootBoard nextPla komi history sz = Inr e
            \<and> scoreLead res = scoreLead e \<and> ownership res = ownership e"
proof -
  note f = runMCTS_fits[OF assms]
  from runMCTS_within[OF assms] have b: "x \<le> 2 ^ 53" by auto
  note r = assms[unfolded runMCTS_Fin[OF f[THEN conjunct1] f[THEN conjunct2] b]]
  show ?thesis
  proof (cases "mctsIter evalf makeMove sz komi rootBoard nextPla history (nat \<lceil>x\<rceil>) (MCTSNode 0 0 1 None False, None)")
    case (Inl e)
    with r show ?thesis by simp
  next
    case (Inr st)
    obtain rt re where st: "st = (rt, re)" by (cases st)
    have re: "re = None \<or> (\<exists>e. evalf rootBoard nextPla komi history sz = Inr e \<and> re = Some e)"
    proof (cases "nat \<lceil>x\<rceil>")
      case 0
      with Inr st show ?thesis by simp
    next
      case (Suc n)
      show ?thesis
      proof (cases "mctsVisit evalf makeMove sz komi rootBoard nextPla history (MCTSNode 0 0 1 None False, None)")
        case v: (Inl e)
        with Inr Suc show ?thesis by simp
      next
        case v: (Inr st1)
        obtain rt1 re1 where st1: "st1 = (rt1, re1)" by (cases st1)
        from v st1 mctsVisit_first[of "MCTSNode 0 0 1 None False" evalf makeMove sz komi rootBoard nextPla history None rt1 re1]
        have f: "node_expanded rt1" "\<exists>e. evalf rootBoard nextPla komi history sz = Inr e \<and> re1 = Some e"
          by simp_all
        from Inr st Suc v st1 have
          "mctsIter evalf makeMove sz komi rootBoard nextPla history n (rt1, re1) = Inr (rt, re)"
          by simp
        from mctsIter_later[OF f(1) this] f(2) show ?thesis by simp
      qed
    qed
    show ?thesis
    proof (cases "case re of Some r \<Rightarrow> Inr r | None \<Rightarrow> evalf rootBoard nextPla komi history sz")
      case (Inl e)
      with r Inr st show ?thesis by simp
    next
      case r': (Inr r')
      with r Inr st have res: "scoreLead res = scoreLead r'" "ownership res = ownership r'"
        by auto
      from re r' have "evalf rootBoard nextPla komi history sz = Inr r'" by auto
      with res show ?thesis by simp
    qed
  qed
qed

lemma count_by_index: "length (filter (\<lambda>i. xs ! i = s) [0..<length xs]) = count_list xs s"
proof (induction xs rule: rev_induct)
  case Nil
  then show ?case by simp
next
  case (snoc x xs)
  have "filter (\<lambda>i. (xs @ [x]) ! i = s) [0..<length xs] = filter (\<lambda>i. xs ! i = s) [0..<length xs]"
    by (rule filter_cong) (simp_all add: nth_append)
  with snoc show ?case by simp
qed

lemma length_filter_concat:
  "length (filter P (concat xss)) = sum_list (map (\<lambda>xs. length (filter P xs)) xss)"
  by (induction xss) simp_all

lemma count_list_concat: "count_list (concat xss) s = sum_list (map (\<lambda>xs. count_list xs s) xss)"
  by (induction xss) simp_all

lemma countStones_square:
  assumes len: "length sm = n" and rows: "\<forall>r \<in> set sm. length r = n"
  shows "countStones (newGoBoard sm) (board_width (newGoBoard sm)) c = count_list (concat sm) c"
proof -
  have w: "board_width (newGoBoard sm) = n"
    using len rows by (cases sm) (simp_all add: board_width_def newGoBoard_def)
  have row: "length (filter (\<lambda>(y', x). board_get (newGoBoard sm) (int x) (int y') = Some c)
                 (map (\<lambda>x. (y, x)) [0..<n])) = count_list (sm ! y) c" if y: "y < n" for y
  proof -
    from y len rows have l: "length (sm ! y) = n" by simp
    have "filter (\<lambda>(y', x). board_get (newGoBoard sm) (int x) (int y') = Some c) (map (\<lambda>x. (y, x)) [0..<n])
        = map (\<lambda>x. (y, x)) (filter (\<lambda>x. (sm ! y) ! x = c) [0..<n])"
      unfolding filter_map comp_def
      by (rule arg_cong[where f = "map (\<lambda>x. (y, x))"], rule filter_cong)
         (simp_all add: board_get_def newGoBoard_def y len l)
    then show ?thesis using count_by_index[of "sm ! y" c] l by simp
  qed
  let ?P = "\<lambda>(y', x). board_get (newGoBoard sm) (int x) (int y') = Some c"
  have "countStones (newGoBoard sm) n c
      = sum_list (map (\<lambda>xs. length (filter ?P xs)) (map (\<lambda>y. map (\<lambda>x. (y, x)) [0..<n]) [0..<n]))"
    by (simp only: countStones_def length_filter_concat)
  also have "\<dots> = sum_list (map (\<lambda>y. length (filter ?P (map (\<lambda>x. (y, x)) [0..<n]))) [0..<n])"
    by (simp only: map_map comp_def)
  also have "\<dots> = sum_list (map (\<lambda>y. count_list (sm ! y) c) [0..<n])"
    by (rule arg_cong[where f = sum_list], rule map_cong, rule refl, rule row, simp)
  also have "\<dots> = sum_list (map (\<lambda>r. count_list r c) (map (\<lambda>y. sm ! y) [0..<length sm]))"
    by (simp add: len comp_def)
  also have "\<dots> = count_list (concat sm) c"
    by (simp only: map_nth count_list_concat)
  finally show ?thesis by (simp add: w)
qed

text \<open>
  Claim C10 (as amended). In \<open>analyzePosition\<close>, when \<open>options.nextToPlay\<close> is absent or
  is the empty text (the source tests it for truthiness), the side to move is Black when the
  loops count as many black as white stones, and White otherwise; on a square sign map the
  loops count all stones of the map. When \<open>nextToPlay\<close> is a text that is not empty, \<open>W\<close>
  selects White and every other text selects Black. The side so determined fixes the
  result: \<open>currentTurn\<close> names it, and the score lead and ownership of the result are those of
  the network run made for that side on the given position, multiplied by it; in a
  single-visit analysis the win rate is that run's win rate, kept for Black and taken from
  one for White.
\<close>

theorem side_to_move_inferred_from_stones:
  "(nextToPlay = None \<or> nextToPlay = Some [] \<longrightarrow>
      nextPlayer board sz nextToPlay
        = (if countStones board sz 1 = countStones board sz (- 1) then 1 else - 1))
   \<and> (nextToPlay = Some s \<and> s \<noteq> [] \<longrightarrow>
      nextPlayer board sz nextToPlay = (if s = ''W'' then - 1 else 1))
   \<and> (length sm = n \<and> (\<forall>r \<in> set sm. length r = n) \<longrightarrow>
      countStones (newGoBoard sm) (board_width (newGoBoard sm)) c = count_list (concat sm) c)
   \<and> (analyzePosition mem session run topMoves makeMove sm options = Some (Inr res) \<longrightarrow>
      (let w = board_width (newGoBoard sm);
           nextPla = nextPlayer (newGoBoard sm) w (opt_nextToPlay options)
       in currentTurn res = (if nextPla = 1 then ''B'' else ''W'')
          \<and> (\<exists>b item own. signMap b = sm \<and>
                 run b nextPla (case opt_komi options of None \<Rightarrow> 7.5 | Some k \<Rightarrow> k)
                     (case opt_history options of None \<Rightarrow> [] | Some h \<Rightarrow> h) = Inr (item, own)
                 \<and> black_frame nextPla w item own res
                 \<and> (\<not> js_lt (Fin 1) (case opt_numVisits options of None \<Rightarrow> Fin 1 | Some v \<Rightarrow> v)
                      \<longrightarrow> winRate res = black_winRate nextPla item))))"
proof (intro conjI impI)
  assume "nextToPlay = None \<or> nextToPlay = Some []"
  then show "nextPlayer board sz nextToPlay
        = (if countStones board sz 1 = countStones board sz (- 1) then 1 else - 1)"
    by (auto simp: nextPlayer_def)
next
  assume "nextToPlay = Some s \<and> s \<noteq> []"
  then show "nextPlayer board sz nextToPlay = (if s = ''W'' then - 1 else 1)"
    by (cases s) (simp_all add: nextPlayer_def)
next
  assume "length sm = n \<and> (\<forall>r \<in> set sm. length r = n)"
  then show "countStones (newGoBoard sm) (board_width (newGoBoard sm)) c = count_list (concat sm) c"
    using countStones_square by blast
next
  assume a: "analyzePosition mem session run topMoves makeMove sm options = Some (Inr res)"
  let ?w = "board_width (newGoBoard sm)"
  let ?p = "nextPlayer (newGoBoard sm) ?w (opt_nextToPlay options)"
  let ?komi = "case opt_komi options of None \<Rightarrow> 7.5 | Some k \<Rightarrow> k"
  let ?hist = "case opt_history options of None \<Rightarrow> [] | Some h \<Rightarrow> h"
  let ?nv = "case opt_numVisits options of None \<Rightarrow> Fin 1 | Some v \<Rightarrow> v"
  let ?b = "case opt_koInfo options of
                     None \<Rightarrow> newGoBoard sm
                   | Some k \<Rightarrow> if ko_sign k \<noteq> 0 then (newGoBoard sm)\<lparr>koInfo := Some k\<rparr> else newGoBoard sm"
  have sb: "signMap ?b = sm" by (simp add: newGoBoard_def split: option.splits)
  from a have ses: session by (auto simp: analyzePosition_def split: if_splits)
  have "currentTurn res = (if ?p = 1 then ''B'' else ''W'')
          \<and> (\<exists>b item own. signMap b = sm \<and> run b ?p ?komi ?hist = Inr (item, own)
                 \<and> black_frame ?p ?w item own res
                 \<and> (\<not> js_lt (Fin 1) ?nv \<longrightarrow> winRate res = black_winRate ?p item))"
  proof (cases "js_lt (Fin 1) ?nv")
    case True
    with a ses have m0: "runMCTS mem (evaluateSingle run topMoves) makeMove ?b ?p ?komi ?hist ?nv ?w = Some (Inr res)"
      by (simp add: analyzePosition_def Let_def)
    from runMCTS_finite[OF m0 True] obtain x where x: "?nv = Fin x" by blast
    from m0 have m: "runMCTS mem (evaluateSingle run topMoves) makeMove ?b ?p ?komi ?hist (Fin x) ?w = Some (Inr res)"
      unfolding x .
    from runMCTS_result[OF m] have ct: "currentTurn res = (if ?p = 1 then ''B'' else ''W'')" by blast
    from runMCTS_rootEval[OF m] obtain e where
      e: "evaluateSingle run topMoves ?b ?p ?komi ?hist ?w = Inr e"
      "scoreLead res = scoreLead e" "ownership res = ownership e" by blast
    from evaluateSingle_frame[OF e(1)] obtain item own where
      "run ?b ?p ?komi ?hist = Inr (item, own)" "black_frame ?p ?w item own e" by blast
    with e(2,3) have "run ?b ?p ?komi ?hist = Inr (item, own) \<and> black_frame ?p ?w item own res"
      by (simp add: black_frame_def)
    with ct True sb show ?thesis by force
  next
    case False
    with a ses have s: "evaluateSingle run topMoves ?b ?p ?komi ?hist ?w = Inr res"
      by (simp add: analyzePosition_def Let_def)
    from evaluateSingle_frame[OF s] sb show ?thesis by blast
  qed
  then show "let w = board_width (newGoBoard sm);
           nextPla = nextPlayer (newGoBoard sm) w (opt_nextToPlay options)
       in currentTurn res = (if nextPla = 1 then ''B'' else ''W'')
          \<and> (\<exists>b item own. signMap b = sm \<and>
                 run b nextPla (case opt_komi options of None \<Rightarrow> 7.5 | Some k \<Rightarrow> k)
                     (case opt_history options of None \<Rightarrow> [] | Some h \<Rightarrow> h) = Inr (item, own)
                 \<and> black_frame nextPla w item own res
                 \<and> (\<not> js_lt (Fin 1) (case opt_numVisits options of None \<Rightarrow> Fin 1 | Some v \<Rightarrow> v)
                      \<longrightarrow> winRate res = black_winRate nextPla item))"
    unfolding Let_def .
qed

lemma ex_counts:
  "countStones (newGoBoard [[0, 1], [0, 0]]) (board_width (newGoBoard [[0, 1], [0, 0]])) 1 = 1"
  "countStones (newGoBoard [[0, 1], [0, 0]]) (board_width (newGoBoard [[0, 1], [0, 0]])) (- 1) = 0"
  using countStones_square[of "[[0, 1], [0, 0]]" 2] by simp_all

text \<open>
  The same on the 2 by 2 sign map with one black stone and no white stone, without options:
  the stone counts differ, White is to move, and the result says so. With \<open>nextToPlay\<close>
  given as \<open>W\<close> the side is White, with \<open>B\<close> Black.
\<close>

theorem side_to_move_inferred_from_stones_witness:
  "length [[0, 1], [0, 0 :: int]] = 2
   \<and> count_list (concat [[0, 1], [0, 0 :: int]]) 1 = 1
   \<and> countStones (newGoBoard [[0, 1], [0, 0]]) (board_width (newGoBoard [[0, 1], [0, 0]])) 1 = 1
   \<and> nextPlayer ex_board 2 (Some ''W'') = - 1
   \<and> nextPlayer ex_board 2 (Some ''B'') = 1
   \<and> (\<exists>res. analyzePosition 1000 True ex_run (\<lambda>p s. []) ex_mover [[0, 1], [0, 0]] ex_options = Some (Inr res)
             \<and> currentTurn res = ''W'')"
proof -
  note t = side_to_move_inferred_from_stones[where sm = "[[0, 1], [0, 0]]" and n = 2
      and run = ex_run and topMoves = "\<lambda>p s. []" and makeMove = ex_mover and options = ex_options
      and board = ex_board and sz = 2 and mem = 1000 and session = True]
  have sq: "length [[0, 1], [0, 0 :: int]] = 2 \<and> (\<forall>r \<in> set [[0, 1], [0, 0 :: int]]. length r = 2)"
    by simp
  have cl: "count_list (concat [[0, 1], [0, 0 :: int]]) 1 = 1 \<and> count_list (concat [[0, 1], [0, 0 :: int]]) (- 1) = 0"
    by simp
  from t[where c = 1] sq cl
  have c1: "countStones (newGoBoard [[0, 1], [0, 0]]) (board_width (newGoBoard [[0, 1], [0, 0]])) 1 = 1"
    by simp
  from t[where c = "- 1"] sq cl
  have c2: "countStones (newGoBoard [[0, 1], [0, 0]]) (board_width (newGoBoard [[0, 1], [0, 0]])) (- 1) = 0"
    by simp
  from t[where nextToPlay = "Some ''W''" and s = "''W''"]
  have w: "nextPlayer ex_board 2 (Some ''W'') = - 1" by simp
  from t[where nextToPlay = "Some ''B''" and s = "''B''"]
  have b: "nextPlayer ex_board 2 (Some ''B'') = 1" by simp
  from t[where nextToPlay = None] have
    "nextPlayer (newGoBoard [[0, 1], [0, 0]]) (board_width (newGoBoard [[0, 1], [0, 0]])) None = - 1"
    by (simp add: nextPlayer_def c1 c2)
  then have np: "nextPlayer (newGoBoard [[0, 1], [0, 0]]) (board_width (newGoBoard [[0, 1], [0, 0]]))
          (opt_nextToPlay ex_options) = - 1"
    by (simp add: ex_options_def)
  obtain res where res: "analyzePosition 1000 True ex_run (\<lambda>p s. []) ex_mover [[0, 1], [0, 0]] ex_options = Some (Inr res)"
    by (simp add: analyzePosition_def Let_def ex_options_def evaluateSingle_def ex_run_def js_lt_def)
  with t[where res = res] np have "currentTurn res = ''W''"
    by (simp add: Let_def)
  with res sq cl c1 w b show ?thesis by blast
qed

text \<open>
  Claim C10 as stated (a present \<open>nextToPlay\<close> other than \<open>W\<close> selects Black) fails for the
  empty text: on the same sign map, with one black stone and no white stone, \<open>nextToPlay\<close>
  set to the empty text gives White, in \<open>nextPlayer\<close> and in the result of the analysis.
\<close>

theorem empty_nextToPlay_counterexample:
  "nextPlayer (newGoBoard [[0, 1], [0, 0]]) 2 (Some '''') = - 1
   \<and> (\<exists>res. analyzePosition 1000 True ex_run (\<lambda>p s. []) ex_mover [[0, 1], [0, 0]]
               (ex_options\<lparr>opt_nextToPlay := Some ''''\<rparr>) = Some (Inr res)
             \<and> currentTurn res = ''W'')"
proof -
  have w: "board_width (newGoBoard [[0, 1], [0, 0]]) = 2"
    by (simp add: board_width_def newGoBoard_def)
  have np: "nextPlayer (newGoBoard [[0, 1], [0, 0]]) 2 (Some '''') = - 1"
    using ex_counts by (simp add: nextPlayer_def w)
  have "analyzePosition 1000 True ex_run (\<lambda>p s. []) ex_mover [[0, 1], [0, 0]]
               (ex_options\<lparr>opt_nextToPlay := Some ''''\<rparr>)
      = Some (evaluateSingle ex_run (\<lambda>p s. []) (newGoBoard [[0, 1], [0, 0]]) (- 1) (15 / 2) [] 2)"
    by (simp add: analyzePosition_def Let_def ex_options_def js_lt_def w np)
  moreover have "\<exists>res. evaluateSingle ex_run (\<lambda>p s. []) (newGoBoard [[0, 1], [0, 0]]) (- 1) (15 / 2) [] 2 = Inr res
                     \<and> currentTurn res = ''W''"
    by (simp add: evaluateSingle_def ex_run_def filterKoMoves_fields processResults_decodeItem
        decodeItem_def Let_def split: prod.splits)
  ultimately show ?thesis using np by auto
qed

section \<open>Properties of the perspective warp\<close>












section \<open>Corner ordering: properties\<close>

subsection \<open>The polar angle\<close>












subsection \<open>The top-left index and the rotation\<close>





subsection \<open>The order of the corners\<close>



subsection \<open>Two quadrilaterals\<close>









end
